theory Spec2Isabelle
  imports Main "HOL-Library.Multiset"
begin

section \<open>Strings and dates as the JavaScript sources use them\<close>

text \<open>
  JavaScript strings are modelled as \<^typ>\<open>string\<close>; a \<^typ>\<open>char\<close> stands for one code unit
  below 256.  A \<open>Date\<close> is its time value in milliseconds since the epoch; an invalid
  \<open>Date\<close> (time value \<open>NaN\<close>) is \<open>None\<close>.
\<close>

definition isDigit :: "char \<Rightarrow> bool" where
  "isDigit c = (c \<in> set ''0123456789'')"

fun indexOfChar :: "char \<Rightarrow> string \<Rightarrow> nat" where
  "indexOfChar c [] = 0"
| "indexOfChar c (x # xs) = (if x = c then 0 else Suc (indexOfChar c xs))"

definition digitVal :: "char \<Rightarrow> nat" where
  "digitVal c = indexOfChar c ''0123456789''"

text \<open>The value of a run of decimal digits, most significant digit first.\<close>

definition digitsVal :: "string \<Rightarrow> nat" where
  "digitsVal s = foldl (\<lambda>acc c. 10 * acc + digitVal c) 0 s"

definition dayInMs :: int where
  "dayInMs = 86400000"

definition isLeapYear :: "int \<Rightarrow> bool" where
  "isLeapYear y = (y mod 4 = 0 \<and> (y mod 100 \<noteq> 0 \<or> y mod 400 = 0))"

definition daysInMonth :: "int \<Rightarrow> int \<Rightarrow> int" where
  "daysInMonth y m =
     (if m = 2 then (if isLeapYear y then 29 else 28)
      else if m = 4 \<or> m = 6 \<or> m = 9 \<or> m = 11 then 30 else 31)"

text \<open>
  Day number (days since 1970-01-01) of a civil date of the proleptic Gregorian calendar,
  month \<open>1..12\<close>, and back.  These are ECMAScript's \<open>MakeDay\<close> and
  \<open>YearFromTime\<close>/\<open>MonthFromTime\<close>/\<open>DateFromTime\<close> on whole days.
\<close>

definition daysFromCivil :: "int \<Rightarrow> int \<Rightarrow> int \<Rightarrow> int" where
  "daysFromCivil y m d =
     (let y' = (if m \<le> 2 then y - 1 else y);
          era = y' div 400;
          yoe = y' - era * 400;
          mp = (m + 9) mod 12;
          doy = (153 * mp + 2) div 5 + d - 1;
          doe = yoe * 365 + yoe div 4 - yoe div 100 + doy
      in era * 146097 + doe - 719468)"

definition civilFromDays :: "int \<Rightarrow> int \<times> int \<times> int" where
  "civilFromDays z0 =
     (let z = z0 + 719468;
          era = z div 146097;
          doe = z - era * 146097;
          yoe = (doe - doe div 1460 + doe div 36524 - doe div 146096) div 365;
          doy = doe - (365 * yoe + yoe div 4 - yoe div 100);
          mp = (5 * doy + 2) div 153;
          d = doy - (153 * mp + 2) div 5 + 1;
          m = (if mp < 10 then mp + 3 else mp - 9);
          y = yoe + era * 400
      in (if m \<le> 2 then y + 1 else y, m, d))"

text \<open>\<open>getDay\<close> of a day number: 0 is Sunday, 5 is Friday; 1970-01-01 was a Thursday.\<close>

definition weekDay :: "int \<Rightarrow> int" where
  "weekDay n = (n + 4) mod 7"

definition digitChar :: "nat \<Rightarrow> char" where
  "digitChar n = ''0123456789'' ! (n mod 10)"

text \<open>Decimal rendering of a natural number, left-padded with zeros to \<open>w\<close> digits.\<close>

fun padNat :: "nat \<Rightarrow> nat \<Rightarrow> string" where
  "padNat 0 n = (if n = 0 then [] else padNat 0 (n div 10) @ [digitChar n])"
| "padNat (Suc w) n = padNat w (n div 10) @ [digitChar n]"

text \<open>
  \<open>date.toISOString().split('T')[0]\<close> for a valid time value: the UTC calendar day.
  Years 0 to 9999 print with four digits, other years with a sign and six digits.
\<close>

definition toISODate :: "int \<Rightarrow> string" where
  "toISODate t =
     (case civilFromDays (t div dayInMs) of (y, m, d) \<Rightarrow>
        (if 0 \<le> y \<and> y \<le> 9999 then padNat 4 (nat y)
         else (if y < 0 then ''-'' else ''+'') @ padNat 6 (nat \<bar>y\<bar>))
        @ ''-'' @ padNat 2 (nat m) @ ''-'' @ padNat 2 (nat d))"

text \<open>The test \<open>/^\d{4}-\d{2}-\d{2}$/\<close>.\<close>

definition isCanonicalForm :: "string \<Rightarrow> bool" where
  "isCanonicalForm s =
     (length s = 10 \<and> s ! 4 = CHR ''-'' \<and> s ! 7 = CHR ''-'' \<and>
      list_all isDigit (take 4 s) \<and> list_all isDigit (take 2 (drop 5 s)) \<and>
      list_all isDigit (drop 8 s))"

text \<open>
  \<open>new Date(s).getTime()\<close>.  For a string of the date-only form \<open>YYYY-MM-DD\<close>
  ECMAScript fixes the result in two cases: with a month 01 to 12 and a day of that
  month it is midnight UTC of that day, and with a month outside 01 to 12 or a day
  outside 01 to 31 it is \<open>NaN\<close> (an element out of bounds).  A day 29 to 31 that the
  month does not have is read differently by different engines, and so is every string
  of another form: these are left to the parameter \<open>legacy\<close>, the rest of the
  engine's parser.
\<close>

definition isoDateOnly :: "string \<Rightarrow> int option" where
  "isoDateOnly s =
     (if isCanonicalForm s then
        (let y = int (digitsVal (take 4 s));
             m = int (digitsVal (take 2 (drop 5 s)));
             d = int (digitsVal (drop 8 s))
         in if 1 \<le> m \<and> m \<le> 12 \<and> 1 \<le> d \<and> d \<le> daysInMonth y m
            then Some (daysFromCivil y m d * dayInMs) else None)
      else None)"

definition outOfBounds :: "string \<Rightarrow> bool" where
  "outOfBounds s =
     (isCanonicalForm s \<and>
      (let m = digitsVal (take 2 (drop 5 s)); d = digitsVal (drop 8 s)
       in m < 1 \<or> 12 < m \<or> d < 1 \<or> 31 < d))"

definition newDate :: "(string \<Rightarrow> int option) \<Rightarrow> string \<Rightarrow> int option" where
  "newDate legacy s =
     (case isoDateOnly s of
        Some t \<Rightarrow> Some t
      | None \<Rightarrow> if outOfBounds s then None else legacy s)"

section \<open>Local time\<close>

text \<open>
  The zone of the engine is ECMAScript's \<open>LocalTZA(t, isUTC)\<close>: the offset of local
  time from UTC in milliseconds, asked at a UTC time value (\<open>isUTC\<close> true) or at a
  local one (\<open>isUTC\<close> false).  It changes where the zone changes its clocks.  With it,
  \<open>LocalTime(t)\<close> and \<open>UTC(t)\<close> are as the standard defines them.
\<close>

type_synonym zone = "int \<Rightarrow> bool \<Rightarrow> int"

definition localTime :: "zone \<Rightarrow> int \<Rightarrow> int" where
  "localTime z t = t + z t True"

definition utcTime :: "zone \<Rightarrow> int \<Rightarrow> int" where
  "utcTime z t = t - z t False"

text \<open>\<open>TimeClip\<close>: a time value beyond the range of \<open>Date\<close> is \<open>NaN\<close>.\<close>

definition maxTime :: int where
  "maxTime = 8640000000000000"

definition timeClip :: "int \<Rightarrow> int option" where
  "timeClip t = (if \<bar>t\<bar> \<le> maxTime then Some t else None)"

text \<open>\<open>date.getDay()\<close> of a valid date: the day of the week in local time.\<close>

definition getDay :: "zone \<Rightarrow> int \<Rightarrow> int" where
  "getDay z t = weekDay (localTime z t div dayInMs)"

text \<open>
  \<open>date.setDate(date.getDate() + k)\<close> on a valid date: \<open>k\<close> days later on the local
  calendar, at the same local time of day; the result is the new time value, and
  \<open>None\<close> when the date has become invalid.
\<close>

definition addLocalDays :: "zone \<Rightarrow> int \<Rightarrow> int \<Rightarrow> int option" where
  "addLocalDays z t k = timeClip (utcTime z (localTime z t + k * dayInMs))"

section \<open>Results of a call\<close>

text \<open>
  A call of a function of the sources returns a value or raises.  Where a call may also
  never return, its result is an \<open>option\<close> of this, and \<open>None\<close> is the run that does
  not end.
\<close>

datatype 'a completion = Returns 'a | Raises

section \<open>String operations\<close>

text \<open>
  White space as \<open>\s\<close> and \<open>trim\<close> see it, among the code units below 256: tab, line
  feed, vertical tab, form feed, carriage return, space and no-break space.
\<close>

definition isSpace :: "char \<Rightarrow> bool" where
  "isSpace c = (of_char c \<in> set [9, 10, 11, 12, 13, 32, 160 :: nat])"

definition isAlpha :: "char \<Rightarrow> bool" where
  "isAlpha c = (c \<in> set ''abcdefghijklmnopqrstuvwxyzABCDEFGHIJKLMNOPQRSTUVWXYZ'')"

definition trim :: "string \<Rightarrow> string" where
  "trim s = rev (dropWhile isSpace (rev (dropWhile isSpace s)))"

definition toLowerChar :: "char \<Rightarrow> char" where
  "toLowerChar c =
     (let n = (of_char c :: nat)
      in if (65 \<le> n \<and> n \<le> 90) \<or> (192 \<le> n \<and> n \<le> 222 \<and> n \<noteq> 215)
         then char_of (n + 32) else c)"

definition toLowerCase :: "string \<Rightarrow> string" where
  "toLowerCase s = map toLowerChar s"

fun startsWith :: "string \<Rightarrow> string \<Rightarrow> bool" where
  "startsWith s [] = True"
| "startsWith [] (p # ps) = False"
| "startsWith (c # cs) (p # ps) = (c = p \<and> startsWith cs ps)"

text \<open>\<open>s.includes(p)\<close>: \<open>p\<close> occurs in \<open>s\<close> as a contiguous substring.\<close>

fun includesStr :: "string \<Rightarrow> string \<Rightarrow> bool" where
  "includesStr [] p = (p = [])"
| "includesStr (c # cs) p = (startsWith (c # cs) p \<or> includesStr cs p)"

text \<open>
  \<open>s.split(re)\<close> for a regular expression \<open>re\<close> that matches exactly one character of
  the class \<open>P\<close>: the pieces between the separators, at least one piece.
\<close>

fun splitOn :: "(char \<Rightarrow> bool) \<Rightarrow> string \<Rightarrow> string list" where
  "splitOn P [] = [[]]"
| "splitOn P (c # cs) =
     (if P c then [] # splitOn P cs
      else (case splitOn P cs of [] \<Rightarrow> [[c]] | w # ws \<Rightarrow> (c # w) # ws))"

text \<open>Array indexing: \<open>xs[i]\<close> is \<open>undefined\<close> (here \<open>None\<close>) out of range.\<close>

definition nthOpt :: "'a list \<Rightarrow> nat \<Rightarrow> 'a option" where
  "nthOpt xs i = (if i < length xs then Some (xs ! i) else None)"

text \<open>A template literal prints \<open>undefined\<close> for a missing array element.\<close>

definition tpl :: "string option \<Rightarrow> string" where
  "tpl x = (case x of None \<Rightarrow> ''undefined'' | Some s \<Rightarrow> s)"

text \<open>Decimal rendering of a natural number.\<close>

definition showNat :: "nat \<Rightarrow> string" where
  "showNat n = (if n = 0 then ''0'' else padNat 0 n)"

section \<open>Sorting\<close>

text \<open>
  \<open>Array.prototype.sort\<close> with a comparator, as a stable insertion sort: \<open>x\<close> moves
  behind \<open>y\<close> only when the comparator is positive; a \<open>NaN\<close> comparison (\<open>None\<close>)
  counts as zero.  With a consistent comparator this is the order every engine produces;
  with \<open>NaN\<close> comparisons the standard leaves the order to the engine, and only the
  elements of the result, not their order, are meaningful.
\<close>

fun insertBy :: "('a \<Rightarrow> 'a \<Rightarrow> int option) \<Rightarrow> 'a \<Rightarrow> 'a list \<Rightarrow> 'a list" where
  "insertBy cmp x [] = [x]"
| "insertBy cmp x (y # ys) =
     (if (case cmp x y of Some v \<Rightarrow> 0 < v | None \<Rightarrow> False)
      then y # insertBy cmp x ys else x # y # ys)"

definition jsSort :: "('a \<Rightarrow> 'a \<Rightarrow> int option) \<Rightarrow> 'a list \<Rightarrow> 'a list" where
  "jsSort cmp xs = foldr (insertBy cmp) xs []"

section \<open>Calendar store (calendarFetcher.js)\<close>

record calendarEvent =
  title :: string
  date :: string
  rawDateText :: string
  time :: string
  description :: string
  ticketsAvailable :: bool
  url :: string
  isFallback :: bool

definition isDateSep :: "char \<Rightarrow> bool" where
  "isDateSep c = (c = CHR ''-'' \<or> c = CHR ''/'')"

text \<open>
  \<open>standardizeDate\<close>.  A canonical string is returned as it is; a string with a slash or
  a dash whose third piece has four characters is read day-month-year first and
  month-day-year only if that gives an invalid date; everything else goes to the engine's
  parser.  The empty string is the function's failure value.
\<close>

definition standardizeDate :: "(string \<Rightarrow> int option) \<Rightarrow> string \<Rightarrow> string" where
  "standardizeDate legacy dateString =
     (if isCanonicalForm dateString then dateString
      else
        (let dt =
           (if CHR ''/'' \<in> set dateString \<or> CHR ''-'' \<in> set dateString then
              (let parts = splitOn isDateSep dateString in
               (case nthOpt parts 2 of
                  Some p2 \<Rightarrow>
                    (if p2 \<noteq> [] \<and> length p2 = 4 then
                       (case newDate legacy
                               (p2 @ ''-'' @ tpl (nthOpt parts 1) @ ''-'' @ tpl (nthOpt parts 0)) of
                          Some t \<Rightarrow> Some t
                        | None \<Rightarrow>
                            newDate legacy
                              (p2 @ ''-'' @ tpl (nthOpt parts 0) @ ''-'' @ tpl (nthOpt parts 1)))
                     else newDate legacy dateString)
                | None \<Rightarrow> newDate legacy dateString))
            else newDate legacy dateString)
         in (case dt of None \<Rightarrow> [] | Some t \<Rightarrow> toISODate t)))"

text \<open>
  \<open>findNearbyEvents\<close>: an event with an empty date is skipped; a comparison with an
  invalid date (\<open>NaN\<close>) is false.
\<close>

definition findNearbyEvents ::
  "(string \<Rightarrow> int option) \<Rightarrow> calendarEvent list \<Rightarrow> string \<Rightarrow> int \<Rightarrow> calendarEvent list" where
  "findNearbyEvents legacy events targetDate dayRange =
     filter (\<lambda>event.
        if date event = [] then False
        else (case (newDate legacy (date event), newDate legacy targetDate) of
                (Some eventTimestamp, Some targetTimestamp) \<Rightarrow>
                  \<bar>eventTimestamp - targetTimestamp\<bar> \<le> dayRange * dayInMs
              | _ \<Rightarrow> False)) events"

subsection \<open>Parsing scraped date text\<close>

text \<open>
  \<open>parseInt(s)\<close> without a radix: leading white space and a sign are skipped, a prefix
  \<open>0x\<close> selects base 16, and the longest run of digits is read; \<open>None\<close> is \<open>NaN\<close>.
  \<open>parseInt(undefined)\<close> is \<open>NaN\<close> too.
\<close>

definition isHexDigit :: "char \<Rightarrow> bool" where
  "isHexDigit c = (c \<in> set ''0123456789abcdefABCDEF'')"

definition hexVal :: "string \<Rightarrow> nat" where
  "hexVal s = foldl (\<lambda>acc c. 16 * acc + indexOfChar (toLowerChar c) ''0123456789abcdef'') 0 s"

definition parseUnsigned :: "string \<Rightarrow> int option" where
  "parseUnsigned s =
     (if startsWith s ''0x'' \<or> startsWith s ''0X'' then
        (let ds = takeWhile isHexDigit (drop 2 s)
         in if ds = [] then None else Some (int (hexVal ds)))
      else
        (let ds = takeWhile isDigit s
         in if ds = [] then None else Some (int (digitsVal ds))))"

definition parseIntJS :: "string option \<Rightarrow> int option" where
  "parseIntJS x =
     (case x of
        None \<Rightarrow> None
      | Some s \<Rightarrow>
          (case dropWhile isSpace s of
             [] \<Rightarrow> None
           | c # cs \<Rightarrow>
               if c = CHR ''-'' then map_option uminus (parseUnsigned cs)
               else if c = CHR ''+'' then parseUnsigned cs
               else parseUnsigned (c # cs)))"

text \<open>
  \<open>new Date(year, monthIndex, day)\<close>: local midnight of that day.  A year from 0 to 99
  means 1900 plus that year; month and day overflow into the neighbouring months and
  years; a \<open>NaN\<close> argument or a time value beyond the range of \<open>Date\<close> gives an invalid
  date.
\<close>

definition makeLocalDate :: "zone \<Rightarrow> int option \<Rightarrow> int option \<Rightarrow> int option \<Rightarrow> int option" where
  "makeLocalDate z yo mo dayo =
     (case (yo, mo, dayo) of
        (Some y, Some m, Some d) \<Rightarrow>
          (let y' = (if 0 \<le> y \<and> y \<le> 99 then 1900 + y else y);
               ym = y' + m div 12;
               mn = m mod 12
           in timeClip (utcTime z ((daysFromCivil ym (mn + 1) 1 + d - 1) * dayInMs)))
      | _ \<Rightarrow> None)"

text \<open>
  \<open>/(\d{1,2})\s+([A-Za-z]+)\s+(\d{4})/\<close> at the head of a string.  After the day, each
  repeated class is followed by a character outside it, so only the longest run can match;
  the day is tried with two digits, then with one.
\<close>

definition longTail :: "string \<Rightarrow> (string \<times> string) option" where
  "longTail r =
     (let r1 = dropWhile isSpace r;
          month = takeWhile isAlpha r1;
          r2 = dropWhile isAlpha r1;
          r3 = dropWhile isSpace r2
      in if takeWhile isSpace r \<noteq> [] \<and> month \<noteq> [] \<and> takeWhile isSpace r2 \<noteq> [] \<and>
            4 \<le> length r3 \<and> list_all isDigit (take 4 r3)
         then Some (month, take 4 r3) else None)"

definition longFormatAt :: "string \<Rightarrow> (string \<times> string \<times> string) option" where
  "longFormatAt s =
     (let two = (if 2 \<le> length s \<and> list_all isDigit (take 2 s)
                 then map_option (\<lambda>my. (take 2 s, my)) (longTail (drop 2 s)) else None);
          one = (if 1 \<le> length s \<and> list_all isDigit (take 1 s)
                 then map_option (\<lambda>my. (take 1 s, my)) (longTail (drop 1 s)) else None)
      in (case two of Some r \<Rightarrow> Some r | None \<Rightarrow> one))"

text \<open>The first position of the string where a pattern matches.\<close>

fun firstMatch :: "(string \<Rightarrow> 'a option) \<Rightarrow> string \<Rightarrow> 'a option" where
  "firstMatch f [] = f []"
| "firstMatch f (c # cs) = (case f (c # cs) of Some r \<Rightarrow> Some r | None \<Rightarrow> firstMatch f cs)"

text \<open>\<open>/\d{1,2}[-\/]\d{1,2}[-\/]\d{4}/\<close> at the head of a string.\<close>

definition afterDigits12 :: "string \<Rightarrow> string list" where
  "afterDigits12 s =
     (if 2 \<le> length s \<and> list_all isDigit (take 2 s) then [drop 2 s] else []) @
     (if 1 \<le> length s \<and> list_all isDigit (take 1 s) then [drop 1 s] else [])"

definition afterSep :: "string \<Rightarrow> string list" where
  "afterSep s = (case s of [] \<Rightarrow> [] | c # cs \<Rightarrow> if isDateSep c then [cs] else [])"

definition numericFormatAt :: "string \<Rightarrow> unit option" where
  "numericFormatAt s =
     (if list_ex (\<lambda>r. 4 \<le> length r \<and> list_all isDigit (take 4 r))
           (concat (map afterSep (concat (map afterDigits12
              (concat (map afterSep (afterDigits12 s)))))))
      then Some () else None)"

fun indexOf :: "'a list \<Rightarrow> 'a \<Rightarrow> nat option" where
  "indexOf [] x = None"
| "indexOf (y # ys) x = (if y = x then Some 0 else map_option Suc (indexOf ys x))"

definition months :: "string list" where
  "months = [''january'', ''february'', ''march'', ''april'', ''may'', ''june'', ''july'',
             ''august'', ''september'', ''october'', ''november'', ''december'']"

definition shortMonths :: "string list" where
  "shortMonths = [''jan'', ''feb'', ''mar'', ''apr'', ''may'', ''jun'', ''jul'', ''aug'',
                  ''sep'', ''oct'', ''nov'', ''dec'']"

fun findIndex :: "('a \<Rightarrow> bool) \<Rightarrow> 'a list \<Rightarrow> nat option" where
  "findIndex P [] = None"
| "findIndex P (y # ys) = (if P y then Some 0 else map_option Suc (findIndex P ys))"

definition getMonthIndex :: "string \<Rightarrow> nat" where
  "getMonthIndex monthName =
     (let normalizedName = toLowerCase monthName in
      (case indexOf months normalizedName of
         Some i \<Rightarrow> i
       | None \<Rightarrow>
           (case indexOf shortMonths (take 3 normalizedName) of
              Some i \<Rightarrow> i
            | None \<Rightarrow>
                (case findIndex (\<lambda>m. startsWith m normalizedName) months of
                   Some i \<Rightarrow> i
                 | None \<Rightarrow> 0))))"

text \<open>
  \<open>parseCalendarDate\<close>: the empty string for an empty or unparseable text (the
  \<open>throw\<close> on an invalid date is caught inside the function).  The branch for
  \<open>Month D, YYYY\<close> and the last branch both call \<open>new Date(dateStr)\<close> and are one
  branch here.
\<close>

definition parseCalendarDate :: "zone \<Rightarrow> (string \<Rightarrow> int option) \<Rightarrow> string \<Rightarrow> string" where
  "parseCalendarDate z legacy dateStr =
     (if dateStr = [] then []
      else
        (let parsedDate =
           (case firstMatch longFormatAt dateStr of
              Some (day, month, year) \<Rightarrow>
                makeLocalDate z (parseIntJS (Some year)) (Some (int (getMonthIndex month)))
                  (parseIntJS (Some day))
            | None \<Rightarrow>
                (if firstMatch numericFormatAt dateStr \<noteq> None then
                   (let parts = splitOn isDateSep dateStr
                    in makeLocalDate z (parseIntJS (nthOpt parts 2))
                         (map_option (\<lambda>m. m - 1) (parseIntJS (nthOpt parts 1)))
                         (parseIntJS (nthOpt parts 0)))
                 else newDate legacy dateStr))
         in (case parsedDate of None \<Rightarrow> [] | Some t \<Rightarrow> toISODate t)))"

subsection \<open>Parsing the event listing\<close>

text \<open>\<open>new Date(b) - new Date(a)\<close> on two date strings.\<close>

definition dateDiff :: "(string \<Rightarrow> int option) \<Rightarrow> string \<Rightarrow> string \<Rightarrow> int option" where
  "dateDiff legacy b a =
     (case (newDate legacy b, newDate legacy a) of
        (Some tb, Some ta) \<Rightarrow> Some (tb - ta)
      | _ \<Rightarrow> None)"

text \<open>
  One element selected by \<open>.event-item, .calendar-event\<close>: the text of its title, date,
  time and description nodes where present, its whole text, and the \<open>href\<close> of its
  first link.
\<close>

record calendarElement =
  titleNode :: "string option"
  dateNode :: "string option"
  timeNode :: "string option"
  descriptionNode :: "string option"
  textContent :: string
  linkHref :: "string option"

text \<open>\<open>node?.textContent.trim() || dflt\<close>.\<close>

definition nodeText :: "string option \<Rightarrow> string \<Rightarrow> string" where
  "nodeText node dflt =
     (case node of None \<Rightarrow> dflt | Some t \<Rightarrow> if trim t = [] then dflt else trim t)"

definition parseElement :: "zone \<Rightarrow> (string \<Rightarrow> int option) \<Rightarrow> calendarElement \<Rightarrow> calendarEvent" where
  "parseElement z legacy element =
     (let dateText = nodeText (dateNode element) []
      in \<lparr> title = nodeText (titleNode element) ''Untitled Event'',
           date = parseCalendarDate z legacy dateText,
           rawDateText = dateText,
           time = nodeText (timeNode element) [],
           description = nodeText (descriptionNode element) [],
           ticketsAvailable =
             (includesStr (toLowerCase (textContent element)) ''tickets'' \<or>
              includesStr (toLowerCase (textContent element)) ''book''),
           url = (case linkHref element of None \<Rightarrow> [] | Some h \<Rightarrow> h),
           isFallback = False \<rparr>)"

subsection \<open>Fallback events\<close>

text \<open>
  \<open>while (date.getDay() !== 5) date.setDate(date.getDate() + 1)\<close>, from a valid date.
  Whether the loop ends depends on the zone; once the date has become invalid its day of
  the week is \<open>NaN\<close> and the loop never ends.  \<open>None\<close> is the loop that does not end.
\<close>

partial_function (option) toFriday :: "zone \<Rightarrow> int \<Rightarrow> int option" where
  "toFriday z t =
     (if getDay z t = 5 then Some t
      else (case addLocalDays z t 1 of
              None \<Rightarrow> None
            | Some t' \<Rightarrow> toFriday z t'))"

declare toFriday.simps [code]

text \<open>
  The loop of five rounds: a day, the day after, then six days on.  A date is a time
  value or invalid (\<open>None\<close>); \<open>setDate\<close> leaves an invalid date invalid.
\<close>

definition setDatePlus :: "zone \<Rightarrow> int option \<Rightarrow> int \<Rightarrow> int option" where
  "setDatePlus z d k = (case d of None \<Rightarrow> None | Some t \<Rightarrow> addLocalDays z t k)"

fun upcomingDates :: "zone \<Rightarrow> nat \<Rightarrow> int option \<Rightarrow> int option list" where
  "upcomingDates z 0 d = []"
| "upcomingDates z (Suc i) d =
     d # setDatePlus z d 1 # upcomingDates z i (setDatePlus z (setDatePlus z d 1) 6)"

definition monthNames :: "string list" where
  "monthNames = [''January'', ''February'', ''March'', ''April'', ''May'', ''June'', ''July'',
                 ''August'', ''September'', ''October'', ''November'', ''December'']"

text \<open>
  \<open>d.toLocaleDateString('en-GB', {day: 'numeric', month: 'long', year: 'numeric'})\<close>,
  for a year from 1 on.
\<close>

definition toLocaleDateGB :: "zone \<Rightarrow> int \<Rightarrow> string" where
  "toLocaleDateGB z t =
     (case civilFromDays (localTime z t div dayInMs) of (y, m, d) \<Rightarrow>
        showNat (nat d) @ '' '' @ monthNames ! nat (m - 1) @ '' '' @ showNat (nat y))"

text \<open>
  The event made from one date: the day of the week and the raw date text are local,
  the date string and the title come from \<open>toISOString\<close> and are UTC.
\<close>

definition fallbackEvent :: "zone \<Rightarrow> int \<Rightarrow> calendarEvent" where
  "fallbackEvent z d =
     (let isFriday = (getDay z d = 5);
          dateStr = toISODate d
      in \<lparr> title = (if isFriday then ''Friday Night Live at Studio 338 ('' @ dateStr @ '')''
                     else ''Saturday Sessions ('' @ dateStr @ '')''),
           date = dateStr,
           rawDateText = toLocaleDateGB z d,
           time = (if isFriday then ''22:00 - 04:00'' else ''21:00 - 06:00''),
           description =
             ''Join us for an amazing night at Studio 338 with world-class music and entertainment.'',
           ticketsAvailable = True,
           url = [],
           isFallback = True \<rparr>)"

text \<open>
  \<open>getFallbackEvents\<close>: \<open>toISOString\<close> raises a \<open>RangeError\<close> on an invalid date, so
  the function raises when one of the ten dates is invalid.
\<close>

definition getFallbackEvents :: "zone \<Rightarrow> int \<Rightarrow> calendarEvent list completion option" where
  "getFallbackEvents z now =
     (case toFriday z now of
        None \<Rightarrow> None
      | Some friday \<Rightarrow>
          (case those (upcomingDates z 5 (Some friday)) of
             None \<Rightarrow> Some Raises
           | Some ds \<Rightarrow> Some (Returns (map (fallbackEvent z) ds))))"

definition parseCalendarEvents ::
  "zone \<Rightarrow> (string \<Rightarrow> int option) \<Rightarrow> int \<Rightarrow> calendarElement list \<Rightarrow>
   calendarEvent list completion option" where
  "parseCalendarEvents z legacy now eventElements =
     (let events = jsSort (\<lambda>a b. dateDiff legacy (date b) (date a))
                     (map (parseElement z legacy) eventElements)
      in if events \<noteq> [] then Some (Returns events) else getFallbackEvents z now)"

subsection \<open>Caches and fetching\<close>

text \<open>
  The module variable \<open>inMemorySessionCache\<close> and the entry under the key
  \<open>calendarCache\<close> of the durable store (dataStorage): absent, a text that raises when
  it is parsed or read (not JSON, or \<open>null\<close>), or an object with its events, its fetch
  timestamp and its expiry timestamp, the timestamps being numbers or missing.  An
  object without events behaves as one with no events.
\<close>

record sessionCache =
  events :: "calendarEvent list"
  lastFetched :: "int option"

datatype storedCache = NoEntry | Corrupt | Entry "calendarEvent list" "int option" "int option"

record calendarState =
  localStore :: storedCache
  inMemorySessionCache :: sessionCache

text \<open>
  What one call meets outside the program: the clock (read as one instant during a
  call), the zone, the engine's date parser, the durable store, and what the network
  request gives.  The durable store is open, or full (\<open>setItem\<close> raises, reading and
  removing work), or denied (every access to \<open>localStorage\<close> raises).  The request is
  rejected, or has a status that is not ok, or a body that cannot be read, or gives the
  elements of the fetched document.
\<close>

datatype storeAccess = StoreOpen | StoreFull | StoreDenied

datatype fetchOutcome = Rejected | NotOk nat | BodyUnreadable | Document "calendarElement list"

record calendarEnv =
  now :: int
  zoneOf :: zone
  legacyParse :: "string \<Rightarrow> int option"
  store :: storeAccess
  response :: fetchOutcome

definition CACHE_EXPIRY_MS :: int where
  "CACHE_EXPIRY_MS = 3600000"

text \<open>
  \<open>getCalendarCache\<close>.  An error inside its \<open>try\<close> block is caught and the entry is
  removed; with the store denied, \<open>getItem\<close> raises and so does the \<open>removeItem\<close> of
  the \<open>catch\<close> block, and the function raises.  \<open>Date.now() > undefined\<close> is false.
\<close>

definition getCalendarCache ::
  "calendarEnv \<Rightarrow> calendarState \<Rightarrow> sessionCache option completion \<times> calendarState" where
  "getCalendarCache env st =
     (if store env = StoreDenied then (Raises, st)
      else
        (case localStore st of
           NoEntry \<Rightarrow> (Returns None, st)
         | Corrupt \<Rightarrow> (Returns None, st\<lparr>localStore := NoEntry\<rparr>)
         | Entry evs fetchTimestamp expiryTimestamp \<Rightarrow>
             if (case expiryTimestamp of None \<Rightarrow> False | Some e \<Rightarrow> now env > e)
             then (Returns None, st\<lparr>localStore := NoEntry\<rparr>)
             else (Returns (Some \<lparr>events = evs, lastFetched = fetchTimestamp\<rparr>), st)))"

text \<open>\<open>saveCalendarCache\<close>: an error of \<open>setItem\<close> is caught and logged.\<close>

definition saveCalendarCache :: "calendarEnv \<Rightarrow> calendarEvent list \<Rightarrow> int \<Rightarrow> calendarState \<Rightarrow> calendarState" where
  "saveCalendarCache env evs timestamp st =
     (if store env = StoreOpen
      then st\<lparr>localStore := Entry evs (Some timestamp) (Some (now env + CACHE_EXPIRY_MS))\<rparr>
      else st)"

text \<open>
  The \<open>catch\<close> block of \<open>fetchAllEvents\<close>: the events of the in-memory cache if there
  are any, else the fallback events.
\<close>

definition fetchFailed ::
  "calendarEnv \<Rightarrow> calendarState \<Rightarrow> (calendarEvent list completion \<times> calendarState) option" where
  "fetchFailed env st =
     (if events (inMemorySessionCache st) \<noteq> [] then Some (Returns (events (inMemorySessionCache st)), st)
      else map_option (\<lambda>r. (r, st)) (getFallbackEvents (zoneOf env) (now env)))"

text \<open>
  \<open>fetchAllEvents\<close>: what the call does (it returns the events, or raises, or does not
  return) and the new state.  \<open>getCalendarCache\<close> is called outside the \<open>try\<close> block,
  which covers the request and the parsing.  \<open>lastFetched\<close> is tested for truth:
  \<open>null\<close> and \<open>0\<close> are false.
\<close>

definition fetchAllEvents ::
  "calendarEnv \<Rightarrow> calendarState \<Rightarrow> (calendarEvent list completion \<times> calendarState) option" where
  "fetchAllEvents env st0 =
     (case getCalendarCache env st0 of
        (Raises, st) \<Rightarrow> Some (Raises, st)
      | (Returns storedCache, st) \<Rightarrow>
        (case (case storedCache of Some c \<Rightarrow> if events c \<noteq> [] then Some c else None
                                 | None \<Rightarrow> None) of
           Some c \<Rightarrow> Some (Returns (events c), st\<lparr>inMemorySessionCache := c\<rparr>)
         | None \<Rightarrow>
             (let mem = inMemorySessionCache st in
              if events mem \<noteq> [] \<and>
                 (case lastFetched mem of
                    None \<Rightarrow> False
                  | Some lf \<Rightarrow> lf \<noteq> 0 \<and> now env - lf < 3600000)
              then Some (Returns (events mem), st)
              else
                (case response env of
                   Document elements \<Rightarrow>
                     (case parseCalendarEvents (zoneOf env) (legacyParse env) (now env) elements of
                        None \<Rightarrow> None
                      | Some Raises \<Rightarrow> fetchFailed env st
                      | Some (Returns evs) \<Rightarrow>
                          (let fetchTimestamp = now env
                           in Some (Returns evs,
                                    (saveCalendarCache env evs fetchTimestamp st)
                                      \<lparr>inMemorySessionCache :=
                                         \<lparr>events = evs, lastFetched = Some fetchTimestamp\<rparr>\<rparr>)))
                 | _ \<Rightarrow> fetchFailed env st))))"

subsection \<open>Looking a date up\<close>

text \<open>
  The four results of \<open>getEventForDate\<close>: \<open>{found: true, exact: true, event}\<close>,
  \<open>{found: true, exact: false, events}\<close>, \<open>{found: false, message}\<close> and
  \<open>{found: false, error: true, message}\<close>.  The function catches what
  \<open>fetchAllEvents\<close> raises; \<open>None\<close> is the call that does not return.
\<close>

datatype matchResult =
  ExactMatch calendarEvent
| NearMatch "calendarEvent list"
| NotFound string
| ErrorResult string

definition getEventForDate ::
  "calendarEnv \<Rightarrow> string \<Rightarrow> calendarState \<Rightarrow> (matchResult \<times> calendarState) option" where
  "getEventForDate env dateString st0 =
     (let standardDate = standardizeDate (legacyParse env) dateString in
      if standardDate = [] then Some (NotFound ''Invalid date format'', st0)
      else
        (case fetchAllEvents env st0 of
           None \<Rightarrow> None
         | Some (Raises, st) \<Rightarrow> Some (ErrorResult ''Error fetching event information'', st)
         | Some (Returns evs, st) \<Rightarrow>
             (case find (\<lambda>event. date event = standardDate) evs of
                Some exactMatch \<Rightarrow> Some (ExactMatch exactMatch, st)
              | None \<Rightarrow>
                  (let nearbyEvents = findNearbyEvents (legacyParse env) evs standardDate 3
                   in if nearbyEvents \<noteq> [] then Some (NearMatch nearbyEvents, st)
                      else Some (NotFound ''No events found for this date'', st)))))"

section \<open>Specification registry (SpecificationManager.js)\<close>

text \<open>
  A property of the JSON data that holds text is missing (reading it gives
  \<open>undefined\<close>), \<open>null\<close>, or a string.  The catalogs covered are those whose
  timestamps, notes and versions are of this kind.
\<close>

datatype jsonText = Absent | Null | Text string

text \<open>
  The snapshot of an earlier version carries its \<open>lastUpdated\<close>, its \<open>changeNote\<close> and
  the fields it records; an item is such a set of fields with an \<open>id\<close> and, where the
  catalog gives an array, its \<open>previousVersions\<close>.
\<close>

record versionRecord =
  lastUpdated :: jsonText
  changeNote :: jsonText
  otherFields :: "(string \<times> string) list"

record specItem = versionRecord +
  id :: string
  previousVersions :: "versionRecord list option"

record catalogMetadata =
  metaLastUpdated :: jsonText
  version :: jsonText
  baseVersion :: jsonText

record changeLogEntry =
  changeDate :: jsonText
  changeVersion :: jsonText
  author :: jsonText

text \<open>
  The catalog: \<open>metadata\<close> is \<open>None\<close> when it is missing or \<open>null\<close> (reading a
  property of it raises in both cases); \<open>categories\<close> maps a category to its
  subcategories and a subcategory to its array of items (\<open>None\<close> where the value is not
  an array), both in the order of the JSON text.
\<close>

record catalog =
  metadata :: "catalogMetadata option"
  categories :: "(string \<times> (string \<times> specItem list option) list) list option"
  changeLog :: "changeLogEntry list option"

text \<open>
  The manager: the held catalog \<open>specs\<close> and \<open>lastSyncTimestamp\<close> (\<open>null\<close> at
  construction), the mode, and the two entries of the durable store it writes.
\<close>

record registry =
  specs :: "catalog option"
  lastSyncTimestamp :: jsonText
  useApi :: bool
  storedSpecifications :: "catalog option"
  storedLastSyncTimestamp :: "string option"

text \<open>
  The outcome of one request: the request is rejected, the status is not ok, the body is
  not JSON, or the value of the body.  For the catalog, a body \<open>null\<close> is \<open>Ok None\<close>;
  for the version, the value is the body's \<open>timestamp\<close>, and \<open>Ok None\<close> is a body
  \<open>null\<close>, where reading \<open>timestamp\<close> raises.
\<close>

datatype 'a httpResult = NetworkError | HttpError string | BadJson | Ok 'a

record syncEnv =
  versionResponse :: "jsonText option httpResult"
  specsResponse :: "catalog option httpResult"
  localResponse :: "catalog option httpResult"
  storageWritable :: bool
  dateParser :: "string \<Rightarrow> int option"

text \<open>Truth of a timestamp: \<open>undefined\<close>, \<open>null\<close> and the empty string are false.\<close>

definition truthy :: "jsonText \<Rightarrow> bool" where
  "truthy x = (case x of Text s \<Rightarrow> s \<noteq> [] | _ \<Rightarrow> False)"

text \<open>\<open>String(x)\<close>, as \<open>setItem\<close> stores a value.\<close>

definition toStr :: "jsonText \<Rightarrow> string" where
  "toStr x = (case x of Absent \<Rightarrow> ''undefined'' | Null \<Rightarrow> ''null'' | Text s \<Rightarrow> s)"

subsection \<open>Comparing timestamps\<close>

text \<open>
  The sign of \<open>Number(s)\<close> for a string: \<open>None\<close> is \<open>NaN\<close>.  The string is trimmed;
  the empty string is zero; a literal with prefix \<open>0x\<close>, \<open>0o\<close> or \<open>0b\<close> has no sign;
  a decimal literal is an optional sign, then \<open>Infinity\<close> or digits with an optional
  fraction and exponent.  A decimal literal with mantissa \<open>m\<close> and decimal exponent
  \<open>k\<close> rounds to zero when \<open>m\<close> is zero or \<open>m * 10^k\<close> is at most \<open>2^-1075\<close>, half
  of the least positive number.
\<close>

definition digitsOfBase :: "string \<Rightarrow> string \<Rightarrow> bool" where
  "digitsOfBase ds s = (s \<noteq> [] \<and> list_all (\<lambda>c. c \<in> set ds) s)"

definition nonDecimalSign :: "string \<Rightarrow> int option" where
  "nonDecimalSign t =
     (let body = drop 2 t;
          zero = list_all (\<lambda>c. c = CHR ''0'') body
      in if (startsWith t ''0x'' \<or> startsWith t ''0X'') \<and> digitsOfBase ''0123456789abcdefABCDEF'' body
            \<or> (startsWith t ''0o'' \<or> startsWith t ''0O'') \<and> digitsOfBase ''01234567'' body
            \<or> (startsWith t ''0b'' \<or> startsWith t ''0B'') \<and> digitsOfBase ''01'' body
         then Some (if zero then 0 else 1) else None)"

definition exponentPart :: "string \<Rightarrow> int option" where
  "exponentPart s =
     (case s of
        [] \<Rightarrow> Some 0
      | c # r \<Rightarrow>
          if c = CHR ''e'' \<or> c = CHR ''E'' then
            (let neg = startsWith r ''-'';
                 ds = (if startsWith r ''-'' \<or> startsWith r ''+'' then drop 1 r else r)
             in if ds \<noteq> [] \<and> list_all isDigit ds
                then Some (if neg then - int (digitsVal ds) else int (digitsVal ds)) else None)
          else None)"

definition unsignedDecimal :: "string \<Rightarrow> (nat \<times> int) option" where
  "unsignedDecimal u =
     (let whole = takeWhile isDigit u;
          r = dropWhile isDigit u;
          dot = startsWith r ''.'';
          frac = (if dot then takeWhile isDigit (drop 1 r) else []);
          r2 = (if dot then dropWhile isDigit (drop 1 r) else r)
      in if whole = [] \<and> frac = [] then None
         else map_option (\<lambda>e. (digitsVal (whole @ frac), e - int (length frac)))
                (exponentPart r2))"

definition roundsToZero :: "nat \<Rightarrow> int \<Rightarrow> bool" where
  "roundsToZero m k = (m = 0 \<or> (k < 0 \<and> int m * 2 ^ 1075 \<le> 10 ^ nat (- k)))"

definition numberSign :: "string \<Rightarrow> int option" where
  "numberSign s =
     (let t = trim s in
      if t = [] then Some 0
      else
        (case nonDecimalSign t of
           Some v \<Rightarrow> Some v
         | None \<Rightarrow>
             (let neg = startsWith t ''-'';
                  u = (if startsWith t ''-'' \<or> startsWith t ''+'' then drop 1 t else t)
              in if u = ''Infinity'' then Some (if neg then - 1 else 1)
                 else
                   (case unsignedDecimal u of
                      None \<Rightarrow> None
                    | Some (m, k) \<Rightarrow>
                        if roundsToZero m k then Some 0
                        else Some (if neg then - 1 else 1)))))"

text \<open>\<open>a > b\<close> on two strings compares code units from the left.\<close>

fun strGreater :: "string \<Rightarrow> string \<Rightarrow> bool" where
  "strGreater [] b = False"
| "strGreater (x # xs) [] = True"
| "strGreater (x # xs) (y # ys) =
     (if x = y then strGreater xs ys else (of_char y :: nat) < of_char x)"

text \<open>
  \<open>a > b\<close> on two timestamps: two strings are compared as strings; otherwise both
  sides become numbers, \<open>undefined\<close> becomes \<open>NaN\<close> and every comparison with it is
  false, \<open>null\<close> becomes zero.
\<close>

definition jsGreater :: "jsonText \<Rightarrow> jsonText \<Rightarrow> bool" where
  "jsGreater a b =
     (case (a, b) of
        (Text x, Text y) \<Rightarrow> strGreater x y
      | (Text x, Null) \<Rightarrow> numberSign x = Some 1
      | (Null, Text y) \<Rightarrow> numberSign y = Some (- 1)
      | _ \<Rightarrow> False)"

text \<open>
  \<open>new Date(x)\<close> for a timestamp: an invalid date for \<open>undefined\<close>, the epoch for
  \<open>null\<close>, the parsed date for a string.
\<close>

definition dateOf :: "(string \<Rightarrow> int option) \<Rightarrow> jsonText \<Rightarrow> int option" where
  "dateOf legacy x = (case x of Absent \<Rightarrow> None | Null \<Rightarrow> Some 0 | Text s \<Rightarrow> newDate legacy s)"

text \<open>\<open>new Date(a) > new Date(b || 0)\<close>.\<close>

definition dateGreater :: "(string \<Rightarrow> int option) \<Rightarrow> jsonText \<Rightarrow> jsonText \<Rightarrow> bool" where
  "dateGreater legacy a b =
     (case (dateOf legacy a, if truthy b then dateOf legacy b else Some 0) of
        (Some ta, Some tb) \<Rightarrow> tb < ta
      | _ \<Rightarrow> False)"

subsection \<open>Synchronisation\<close>

text \<open>
  The tail of \<open>syncSpecifications\<close>, from \<open>if (needsUpdate && newSpecs)\<close> on.  The
  two assignments come first; a write refused by the durable store, or a catalog without
  \<open>metadata\<close> at the final log line, then raises inside the \<open>try\<close> block and the
  \<open>catch\<close> returns \<open>false\<close> with the assignments done.
\<close>

definition applyUpdate ::
  "syncEnv \<Rightarrow> registry \<Rightarrow> bool \<Rightarrow> catalog option \<Rightarrow> jsonText \<Rightarrow> bool \<times> registry" where
  "applyUpdate env r needsUpdate newSpecs newTimestamp =
     (case (needsUpdate, newSpecs) of
        (True, Some c) \<Rightarrow>
          (let r1 = r\<lparr>specs := Some c, lastSyncTimestamp := newTimestamp\<rparr> in
           if \<not> storageWritable env then (False, r1)
           else
             (let r2 = r1\<lparr>storedSpecifications := Some c,
                          storedLastSyncTimestamp := Some (toStr newTimestamp)\<rparr>
              in (case metadata c of None \<Rightarrow> (False, r2) | Some md \<Rightarrow> (True, r2))))
      | _ \<Rightarrow> (False, r))"

text \<open>
  \<open>syncSpecifications\<close>: the value returned and the manager afterwards.  Every raise
  inside the function is caught by its \<open>catch\<close>, which returns \<open>false\<close>.
\<close>

definition syncSpecifications :: "syncEnv \<Rightarrow> registry \<Rightarrow> bool \<times> registry" where
  "syncSpecifications env r =
     (if useApi r then
        (case versionResponse env of
           Ok (Some newTimestamp) \<Rightarrow>
             (let needsUpdate = (specs r = None \<or> \<not> truthy (lastSyncTimestamp r) \<or>
                                 jsGreater newTimestamp (lastSyncTimestamp r))
              in if needsUpdate then
                   (case specsResponse env of
                      Ok newSpecs \<Rightarrow> applyUpdate env r needsUpdate newSpecs newTimestamp
                    | _ \<Rightarrow> (False, r))
                 else applyUpdate env r needsUpdate None newTimestamp)
         | _ \<Rightarrow> (False, r))
      else
        (case localResponse env of
           Ok newSpecs \<Rightarrow>
             (case newSpecs of
                None \<Rightarrow> (False, r)
              | Some c \<Rightarrow>
                  (case metadata c of
                     None \<Rightarrow> (False, r)
                   | Some md \<Rightarrow>
                       (let newTimestamp = metaLastUpdated md;
                            needsUpdate = (specs r = None \<or> \<not> truthy (lastSyncTimestamp r) \<or>
                                           dateGreater (dateParser env) newTimestamp
                                             (lastSyncTimestamp r))
                        in applyUpdate env r needsUpdate newSpecs newTimestamp)))
         | _ \<Rightarrow> (False, r)))"

subsection \<open>Looking items up\<close>

text \<open>
  The order in which \<open>for ... in\<close> and \<open>Object.entries\<close> visit the keys of an object:
  the keys that are array indices (canonical decimal numbers below \<open>2^32 - 1\<close>) in
  ascending order, then the other keys in the order of their creation.  An object is
  given by its entries in the order of creation.
\<close>

definition isArrayIndex :: "string \<Rightarrow> bool" where
  "isArrayIndex k =
     (k \<noteq> [] \<and> list_all isDigit k \<and> (k = ''0'' \<or> hd k \<noteq> CHR ''0'') \<and>
      int (digitsVal k) < 4294967295)"

definition ownEntries :: "(string \<times> 'a) list \<Rightarrow> (string \<times> 'a) list" where
  "ownEntries kvs =
     sort_key (\<lambda>kv. digitsVal (fst kv)) (filter (\<lambda>kv. isArrayIndex (fst kv)) kvs) @
     filter (\<lambda>kv. \<not> isArrayIndex (fst kv)) kvs"

text \<open>
  \<open>getItemById\<close>: the two nested loops return at the first item with the id, so the
  result is the first such item of the arrays taken in the order of the loops.
\<close>

definition allItems :: "(string \<times> (string \<times> specItem list option) list) list \<Rightarrow> specItem list" where
  "allItems cats =
     concat (map (\<lambda>(categoryKey, category).
        concat (map (\<lambda>(subCategoryKey, subcategoryItems).
                  (case subcategoryItems of None \<Rightarrow> [] | Some items \<Rightarrow> items))
               (ownEntries category)))
       (ownEntries cats))"

definition getItemById :: "registry \<Rightarrow> string \<Rightarrow> specItem option" where
  "getItemById r ident =
     (case specs r of
        None \<Rightarrow> None
      | Some c \<Rightarrow>
          (case categories c of
             None \<Rightarrow> None
           | Some cats \<Rightarrow> find (\<lambda>item. id item = ident) (allItems cats)))"

text \<open>
  \<open>getChangeHistory\<close>.  The record put in front is
  \<open>{lastUpdated: item.lastUpdated, changeNote: "Current version", ...item}\<close>: the
  item's own properties are spread last, so a \<open>changeNote\<close> of the item, also
  \<open>null\<close>, replaces the fixed note.  Of the record's properties the model keeps those of a version record.
  The comparator is \<open>new Date(b.lastUpdated) - new Date(a.lastUpdated)\<close>.
\<close>

definition currentVersion :: "specItem \<Rightarrow> versionRecord" where
  "currentVersion item =
     \<lparr> lastUpdated = lastUpdated item,
       changeNote = (case changeNote item of Absent \<Rightarrow> Text ''Current version'' | n \<Rightarrow> n),
       otherFields = otherFields item \<rparr>"

definition newestFirst :: "(string \<Rightarrow> int option) \<Rightarrow> versionRecord \<Rightarrow> versionRecord \<Rightarrow> int option" where
  "newestFirst legacy a b =
     (case (dateOf legacy (lastUpdated b), dateOf legacy (lastUpdated a)) of
        (Some tb, Some ta) \<Rightarrow> Some (tb - ta)
      | _ \<Rightarrow> None)"

definition getChangeHistory :: "(string \<Rightarrow> int option) \<Rightarrow> registry \<Rightarrow> string \<Rightarrow> versionRecord list" where
  "getChangeHistory legacy r ident =
     (case getItemById r ident of
        None \<Rightarrow> []
      | Some item \<Rightarrow>
          (let history = (case previousVersions item of None \<Rightarrow> [] | Some pv \<Rightarrow> pv)
           in jsSort (newestFirst legacy) (currentVersion item # history)))"

section \<open>Document indexer (pdfProcessor.js)\<close>

subsection \<open>The knowledge base\<close>

text \<open>
  The module variable \<open>knowledgeBase\<close>.  Each of its objects is given by its entries
  in the order of creation.  The property \<open>faqs\<close> does not exist until
  \<open>generateFAQs\<close> has run: \<open>None\<close> is \<open>undefined\<close>.  A price is kept as the decimal
  numeral that \<open>parseFloat\<close> read.
\<close>

record equipmentEntry =
  quantity :: nat
  specificationText :: string
  pageReferences :: "nat list"

record passage =
  content :: string
  passagePage :: nat
  keyword :: string

record priceEntry =
  price :: string
  pricePage :: nat
  priceContext :: "string option"

record restrictionEntry =
  restrictionText :: string
  restrictionPage :: nat

record faq =
  question :: string
  answer :: string
  category :: string

record knowledgeBase =
  equipment :: "(string \<times> equipmentEntry) list"
  specifications :: "(string \<times> passage list) list"
  pricing :: "(string \<times> priceEntry) list"
  restrictions :: "(string \<times> restrictionEntry list) list"
  raw :: "(string \<times> string) list"
  faqs :: "faq list option"

definition initialKnowledgeBase :: knowledgeBase where
  "initialKnowledgeBase =
     \<lparr> equipment = [], specifications = [], pricing = [], restrictions = [], raw = [],
       faqs = None \<rparr>"

text \<open>
  Writing \<open>obj[k] = v\<close>: an existing key keeps its place, a new key goes last; the key
  \<open>__proto__\<close> sets the prototype and creates no entry.
\<close>

fun updateEntry :: "string \<Rightarrow> 'a \<Rightarrow> (string \<times> 'a) list \<Rightarrow> (string \<times> 'a) list" where
  "updateEntry k v [] = [(k, v)]"
| "updateEntry k v ((k', v') # kvs) =
     (if k' = k then (k, v) # kvs else (k', v') # updateEntry k v kvs)"

definition assignEntry :: "string \<Rightarrow> 'a \<Rightarrow> (string \<times> 'a) list \<Rightarrow> (string \<times> 'a) list" where
  "assignEntry k v kvs = (if k = ''__proto__'' then kvs else updateEntry k v kvs)"

text \<open>
  The names every plain object inherits from \<open>Object.prototype\<close>, among the strings
  the equipment pattern can capture (letters, digits, white space, \<open>&\<close> and \<open>-\<close>):
  reading \<open>obj[name]\<close> for one of them gives a function, which is true in a test and
  has no \<open>pageReferences\<close>.
\<close>

definition inheritedNames :: "string list" where
  "inheritedNames = [''constructor'', ''hasOwnProperty'', ''isPrototypeOf'',
                     ''propertyIsEnumerable'', ''toLocaleString'', ''toString'', ''valueOf'']"

subsection \<open>Scanning a text with a global regular expression\<close>

text \<open>
  The loop \<open>while ((match = re.exec(text)) !== null)\<close> of a global expression: the
  expression is tried at each position from \<open>lastIndex\<close> on, the first position where
  it matches gives the match, and \<open>lastIndex\<close> moves to the end of the match.  The
  function \<open>f\<close> matches at the head of a string and gives the captures and the length
  of the match (at least one); \<open>skip\<close> counts the characters still inside the last
  match, \<open>pre\<close> is the text before the position, reversed.  Each match comes with the
  text before it.
\<close>

fun scanMatches ::
  "(string \<Rightarrow> ('a \<times> nat) option) \<Rightarrow> nat \<Rightarrow> string \<Rightarrow> string \<Rightarrow> (string \<times> 'a) list" where
  "scanMatches f skip pre [] = []"
| "scanMatches f skip pre (c # cs) =
     (if 0 < skip then scanMatches f (skip - 1) (c # pre) cs
      else (case f (c # cs) of
              Some (caps, len) \<Rightarrow> (rev pre, caps) # scanMatches f (len - 1) (c # pre) cs
            | None \<Rightarrow> scanMatches f 0 (c # pre) cs))"

subsection \<open>Equipment\<close>

text \<open>The class \<open>[A-Za-z0-9\s&\-]\<close>.\<close>

definition isNameChar :: "char \<Rightarrow> bool" where
  "isNameChar c = (isAlpha c \<or> isDigit c \<or> isSpace c \<or> c = CHR ''&'' \<or> c = CHR ''-'')"

text \<open>The optional group \<open>(?:\s+\(([^)]+)\))\<close> at the head of a string.\<close>

definition specGroupAt :: "string \<Rightarrow> (string \<times> nat) option" where
  "specGroupAt r =
     (let w = takeWhile isSpace r in
      (case dropWhile isSpace r of
         [] \<Rightarrow> None
       | c # r1 \<Rightarrow>
           (let inner = takeWhile (\<lambda>x. x \<noteq> CHR '')'') r1 in
            if w \<noteq> [] \<and> c = CHR ''('' \<and> inner \<noteq> [] \<and>
               dropWhile (\<lambda>x. x \<noteq> CHR '')'') r1 \<noteq> []
            then Some (inner, length w + 1 + length inner + 1) else None)))"

text \<open>
  \<open>/(\d+)\s+x\s+([A-Za-z0-9\s&\-]+)(?:\s+\(([^)]+)\))?/\<close> at the head of a string:
  the quantity, the name, the specification if the optional group matched, and the
  length of the match.  The digits and the white space before \<open>x\<close> are followed by a
  character outside their class, so only their longest runs can match.  The white space
  after \<open>x\<close> belongs to the class of the name as well: when no name character follows
  it, the expression backtracks and the last of two or more white space characters
  becomes the name.  The name takes the longest run; the optional group is tried after
  it and the match succeeds with or without the group.
\<close>

definition equipmentAt :: "string \<Rightarrow> ((string \<times> string \<times> string option) \<times> nat) option" where
  "equipmentAt s =
     (let q = takeWhile isDigit s;
          r1 = dropWhile isDigit s;
          w1 = takeWhile isSpace r1
      in (case dropWhile isSpace r1 of
            [] \<Rightarrow> None
          | c # r3 \<Rightarrow>
              (let w2 = takeWhile isSpace r3;
                   r4 = dropWhile isSpace r3;
                   nm = takeWhile isNameChar r4;
                   r5 = dropWhile isNameChar r4;
                   lead = length q + length w1 + 1 + length w2
               in if q = [] \<or> w1 = [] \<or> c \<noteq> CHR ''x'' \<or> w2 = [] then None
                  else if nm \<noteq> [] then
                    (case specGroupAt r5 of
                       Some (sp, n) \<Rightarrow> Some ((q, nm, Some sp), lead + length nm + n)
                     | None \<Rightarrow> Some ((q, nm, None), lead + length nm))
                  else if 2 \<le> length w2 then
                    (case specGroupAt r4 of
                       Some (sp, n) \<Rightarrow> Some ((q, [last w2], Some sp), lead + n)
                     | None \<Rightarrow> Some ((q, [last w2], None), lead))
                  else None)))"

text \<open>
  One round of the loop of \<open>extractEquipmentSpecs\<close>.  The first sighting of a name
  creates its entry; a later one adds the page if it is new.  For an inherited name the
  test \<open>!knowledgeBase.equipment[name]\<close> is false although there is no entry, and
  \<open>pageReferences.includes\<close> on \<open>undefined\<close> raises a \<open>TypeError\<close>: \<open>None\<close>.
  \<open>parseInt(quantity, 10)\<close> of a run of digits is its value (exact below \<open>2^53\<close>).
\<close>

definition recordEquipment ::
  "nat \<Rightarrow> string \<times> string \<times> string option \<Rightarrow> (string \<times> equipmentEntry) list \<Rightarrow>
   (string \<times> equipmentEntry) list option" where
  "recordEquipment pageNum m eq =
     (case m of (q, nm, sp) \<Rightarrow>
        (let name = trim nm;
             spec = (case sp of None \<Rightarrow> [] | Some s \<Rightarrow> trim s)
         in (case map_of eq name of
               Some e \<Rightarrow>
                 Some (if pageNum \<in> set (pageReferences e) then eq
                       else updateEntry name (e\<lparr>pageReferences := pageReferences e @ [pageNum]\<rparr>) eq)
             | None \<Rightarrow>
                 if name \<in> set inheritedNames then None
                 else Some (updateEntry name
                              \<lparr> quantity = digitsVal q, specificationText = spec,
                                pageReferences = [pageNum] \<rparr> eq))))"

text \<open>
  The rounds in order; a raise ends the function, with the entries made so far kept in
  the knowledge base.  The result is the equipment and whether the function returned.
\<close>

fun recordAll ::
  "nat \<Rightarrow> (string \<times> string \<times> string option) list \<Rightarrow> (string \<times> equipmentEntry) list \<Rightarrow>
   (string \<times> equipmentEntry) list \<times> bool" where
  "recordAll pageNum [] eq = (eq, True)"
| "recordAll pageNum (m # ms) eq =
     (case recordEquipment pageNum m eq of
        None \<Rightarrow> (eq, False)
      | Some eq' \<Rightarrow> recordAll pageNum ms eq')"

definition equipmentMatches :: "string \<Rightarrow> (string \<times> string \<times> string option) list" where
  "equipmentMatches text = map snd (scanMatches equipmentAt 0 [] text)"

definition extractEquipmentSpecs ::
  "string \<Rightarrow> nat \<Rightarrow> (string \<times> equipmentEntry) list \<Rightarrow> (string \<times> equipmentEntry) list \<times> bool" where
  "extractEquipmentSpecs text pageNum eq = recordAll pageNum (equipmentMatches text) eq"

subsection \<open>Pricing\<close>

definition poundSign :: char where
  "poundSign = char_of (163 :: nat)"

text \<open>The group \<open>(\d+(?:\.\d+)?)\<close> at the head of a string: the numeral and the rest.\<close>

definition numeralAt :: "string \<Rightarrow> (string \<times> string) option" where
  "numeralAt s =
     (let whole = takeWhile isDigit s; r = dropWhile isDigit s in
      if whole = [] then None
      else (case r of
              [] \<Rightarrow> Some (whole, r)
            | c # r1 \<Rightarrow>
                if c = CHR ''.'' \<and> takeWhile isDigit r1 \<noteq> []
                then Some (whole @ ''.'' @ takeWhile isDigit r1, dropWhile isDigit r1)
                else Some (whole, r)))"

text \<open>\<open>/\<pounds>(\d+(?:\.\d+)?)\s*(?:\+\s*VAT)?/\<close> at the head of a string.\<close>

definition priceAt :: "string \<Rightarrow> (string \<times> nat) option" where
  "priceAt s =
     (case s of
        [] \<Rightarrow> None
      | c # r \<Rightarrow>
          if c \<noteq> poundSign then None
          else (case numeralAt r of
                  None \<Rightarrow> None
                | Some (num, r1) \<Rightarrow>
                    (let w = takeWhile isSpace r1;
                         r2 = dropWhile isSpace r1;
                         vat = (case r2 of
                                  [] \<Rightarrow> 0
                                | p # r3 \<Rightarrow>
                                    if p = CHR ''+'' \<and> startsWith (dropWhile isSpace r3) ''VAT''
                                    then 1 + length (takeWhile isSpace r3) + 3 else 0)
                     in Some (num, 1 + length num + length w + vat))))"

text \<open>
  \<open>/([A-Za-z0-9\s&\-]+)(?:\s+-\s+)?\<pounds>(\d+(?:\.\d+)?)/\<close> at the head of a string.  The
  pound sign is outside the class of the label and the optional group lies inside it, so
  the expression matches exactly when the longest run of the class is followed by the
  pound sign and a numeral, and the label is that run.
\<close>

definition priceContextAt :: "string \<Rightarrow> ((string \<times> string) \<times> nat) option" where
  "priceContextAt s =
     (let label = takeWhile isNameChar s in
      if label = [] then None
      else (case dropWhile isNameChar s of
              [] \<Rightarrow> None
            | c # r \<Rightarrow>
                if c \<noteq> poundSign then None
                else (case numeralAt r of
                        None \<Rightarrow> None
                      | Some (num, r1) \<Rightarrow> Some ((label, num), length label + 1 + length num))))"

text \<open>\<open>text.substring(Math.max(0, index - 50), index)\<close>, from the text before the match.\<close>

definition contextBefore :: "string \<Rightarrow> string" where
  "contextBefore preceding = drop (length preceding - 50) preceding"

definition recordPrice :: "nat \<Rightarrow> string \<times> string \<Rightarrow> (string \<times> priceEntry) list \<Rightarrow> (string \<times> priceEntry) list" where
  "recordPrice pageNum m pr =
     (case m of (preceding, num) \<Rightarrow>
        (let ctx = contextBefore preceding;
             lastLine = trim (last (splitOn (\<lambda>c. c = CHR ''.'') ctx));
             item = (if 0 < length lastLine \<and> length lastLine < 50 then lastLine
                     else ''Unknown item'')
         in assignEntry item \<lparr> price = num, pricePage = pageNum, priceContext = Some ctx \<rparr> pr))"

definition recordPriceContext ::
  "nat \<Rightarrow> string \<times> (string \<times> string) \<Rightarrow> (string \<times> priceEntry) list \<Rightarrow> (string \<times> priceEntry) list" where
  "recordPriceContext pageNum m pr =
     (case m of (preceding, label, num) \<Rightarrow>
        assignEntry (trim label) \<lparr> price = num, pricePage = pageNum, priceContext = None \<rparr> pr)"

definition extractPricingInfo :: "string \<Rightarrow> nat \<Rightarrow> (string \<times> priceEntry) list \<Rightarrow> (string \<times> priceEntry) list" where
  "extractPricingInfo text pageNum pr =
     foldl (\<lambda>acc m. recordPriceContext pageNum m acc)
       (foldl (\<lambda>acc m. recordPrice pageNum m acc) pr (scanMatches priceAt 0 [] text))
       (scanMatches priceContextAt 0 [] text)"

subsection \<open>Restrictions\<close>

definition restrictionKeywords :: "string list" where
  "restrictionKeywords = [''maximum'', ''minimum'', ''limit'', ''restriction'', ''not allowed'',
                          ''prohibited'', ''must'', ''cannot'', ''db limit'', ''decibel'']"

text \<open>\<open>s.split(/[.!?]+/)\<close>: the pieces between the longest runs of the separators.\<close>

fun splitRuns :: "(char \<Rightarrow> bool) \<Rightarrow> bool \<Rightarrow> string \<Rightarrow> string list" where
  "splitRuns P inRun [] = [[]]"
| "splitRuns P inRun (c # cs) =
     (if P c then (if inRun then splitRuns P True cs else [] # splitRuns P True cs)
      else (case splitRuns P False cs of [] \<Rightarrow> [[c]] | w # ws \<Rightarrow> (c # w) # ws))"

definition isSentenceEnd :: "char \<Rightarrow> bool" where
  "isSentenceEnd c = (c = CHR ''.'' \<or> c = CHR ''!'' \<or> c = CHR ''?'')"

text \<open>Appending to the array under a key, creating the array first if the key is new.\<close>

definition pushEntry :: "string \<Rightarrow> 'a \<Rightarrow> (string \<times> 'a list) list \<Rightarrow> (string \<times> 'a list) list" where
  "pushEntry k v kvs =
     (case map_of kvs k of
        None \<Rightarrow> updateEntry k [v] kvs
      | Some vs \<Rightarrow> updateEntry k (vs @ [v]) kvs)"

definition extractRestrictions ::
  "string \<Rightarrow> nat \<Rightarrow> (string \<times> restrictionEntry list) list \<Rightarrow> (string \<times> restrictionEntry list) list" where
  "extractRestrictions text pageNum rs =
     foldl (\<lambda>acc kw.
        if includesStr (toLowerCase text) kw then
          foldl (\<lambda>acc2 sentence.
             if includesStr (toLowerCase sentence) kw
             then pushEntry kw \<lparr> restrictionText = trim sentence, restrictionPage = pageNum \<rparr> acc2
             else acc2)
            acc (splitRuns isSentenceEnd False text)
        else acc)
       rs restrictionKeywords"

subsection \<open>Categorized passages\<close>

definition CATEGORIES :: "(string \<times> string list) list" where
  "CATEGORIES =
     [(''SOUND'', [''sound'', ''audio'', ''speaker'', ''pa'', ''microphone'', ''mixer'', ''cdj'',
                   ''technics'']),
      (''LIGHTING'', [''lighting'', ''light'', ''strobe'', ''beam'', ''led'', ''rgb'']),
      (''VIDEO'', [''video'', ''screen'', ''projection'', ''projector'', ''led screen'']),
      (''STAGE'', [''stage'', ''dimensions'', ''truss'', ''podium'']),
      (''POWER'', [''power'', ''electricity'', ''amp'', ''volt'']),
      (''SPECIAL_FX'', [''fx'', ''effect'', ''smoke'', ''pyro'', ''confetti'', ''co2'']),
      (''RESTRICTIONS'', [''restriction'', ''limit'', ''maximum'', ''minimum'', ''db'',
                          ''decibel''])]"

text \<open>
  \<open>/\n\s*\n/\<close> at the head of a string: a line feed, white space, a line feed.  The
  white space is taken as long as possible and given back up to its last line feed.
\<close>

definition paragraphBreakAt :: "string \<Rightarrow> nat option" where
  "paragraphBreakAt s =
     (case s of
        [] \<Rightarrow> None
      | c # r \<Rightarrow>
          (let w = takeWhile isSpace r in
           if c = CHR 0x0A \<and> CHR 0x0A \<in> set w
           then Some (1 + (length w - length (takeWhile (\<lambda>x. x \<noteq> CHR 0x0A) (rev w))))
           else None))"

text \<open>\<open>text.split(/\n\s*\n/)\<close>; \<open>cur\<close> is the piece being read, reversed.\<close>

fun splitParagraphs :: "nat \<Rightarrow> string \<Rightarrow> string \<Rightarrow> string list" where
  "splitParagraphs skip cur [] = [rev cur]"
| "splitParagraphs skip cur (c # cs) =
     (if 0 < skip then splitParagraphs (skip - 1) cur cs
      else (case paragraphBreakAt (c # cs) of
              Some n \<Rightarrow> rev cur # splitParagraphs (n - 1) [] cs
            | None \<Rightarrow> splitParagraphs 0 (c # cur) cs))"

definition paragraphsOf :: "string \<Rightarrow> string list" where
  "paragraphsOf text = splitParagraphs 0 [] text"

text \<open>
  \<open>categorizeSectionContent\<close>: for each category, the first of its keywords that
  occurs in the page decides (\<open>foundPassages\<close> gives the paragraphs with that keyword,
  \<open>None\<close> when no keyword occurs); the category's array is created if missing and the
  paragraphs are appended.
\<close>

definition foundPassages :: "string \<Rightarrow> nat \<Rightarrow> string list \<Rightarrow> passage list option" where
  "foundPassages text pageNum keywords =
     (case find (\<lambda>kw. includesStr (toLowerCase text) kw) keywords of
        None \<Rightarrow> None
      | Some kw \<Rightarrow>
          Some (map (\<lambda>paragraph. \<lparr> content = trim paragraph, passagePage = pageNum,
                                     keyword = kw \<rparr>)
                  (filter (\<lambda>paragraph. includesStr (toLowerCase paragraph) kw)
                     (paragraphsOf text))))"

definition categorizeOne ::
  "string \<Rightarrow> nat \<Rightarrow> (string \<times> passage list) list \<Rightarrow> string \<times> string list \<Rightarrow>
   (string \<times> passage list) list" where
  "categorizeOne text pageNum sp ck =
     (case ck of (cat, keywords) \<Rightarrow>
        (case foundPassages text pageNum keywords of
           None \<Rightarrow> sp
         | Some found \<Rightarrow>
             (let existing = (case map_of sp cat of None \<Rightarrow> [] | Some es \<Rightarrow> es)
              in updateEntry cat (existing @ found) sp)))"

definition categorizeSectionContent ::
  "string \<Rightarrow> nat \<Rightarrow> (string \<times> passage list) list \<Rightarrow> (string \<times> passage list) list" where
  "categorizeSectionContent text pageNum sp = foldl (categorizeOne text pageNum) sp CATEGORIES"

subsection \<open>Finalization\<close>

text \<open>
  The deduplication of \<open>organizeKnowledgeBase\<close>: an entry is kept when its content has
  not been seen among the entries before it.
\<close>

fun uniqueEntries :: "string list \<Rightarrow> passage list \<Rightarrow> passage list" where
  "uniqueEntries seen [] = []"
| "uniqueEntries seen (entry # entries) =
     (if content entry \<in> set seen then uniqueEntries seen entries
      else entry # uniqueEntries (content entry # seen) entries)"

definition dedupSpecifications :: "(string \<times> passage list) list \<Rightarrow> (string \<times> passage list) list" where
  "dedupSpecifications sp = map (\<lambda>(cat, entries). (cat, uniqueEntries [] entries)) sp"

text \<open>
  \<open>generateFAQs\<close>.  \<open>toFixed2\<close> stands for \<open>parseFloat(numeral).toFixed(2)\<close>, which is
  floating-point arithmetic and is left to the engine.
\<close>

definition equipmentFaq :: "string \<times> equipmentEntry \<Rightarrow> faq" where
  "equipmentFaq nd =
     (case nd of (name, details) \<Rightarrow>
        \<lparr> question = ''How many '' @ name @ '' does Studio 338 have?'',
          answer = ''Studio 338 has '' @ showNat (quantity details) @ '' '' @ name @
                   (if specificationText details \<noteq> []
                    then '' ('' @ specificationText details @ '')'' else []) @ ''.'',
          category = ''EQUIPMENT'' \<rparr>)"

definition pricingFaq :: "(string \<Rightarrow> string) \<Rightarrow> string \<times> priceEntry \<Rightarrow> faq" where
  "pricingFaq toFixed2 idt =
     (case idt of (item, details) \<Rightarrow>
        \<lparr> question = ''How much does '' @ item @ '' cost to hire?'',
          answer = ''The cost for '' @ item @ '' is '' @ [poundSign] @ toFixed2 (price details) @
                   (case priceContext details of
                      None \<Rightarrow> []
                    | Some ctx \<Rightarrow>
                        if ctx = [] then []
                        else '' based on the following information: '' @ ctx) @ ''.'',
          category = ''PRICING'' \<rparr>)"

definition restrictionFaqs :: "string \<times> restrictionEntry list \<Rightarrow> faq list" where
  "restrictionFaqs ke =
     (case ke of (kw, entries) \<Rightarrow>
        map (\<lambda>entry. \<lparr> question = ''What are the restrictions regarding '' @ kw @ ''?'',
                       answer = restrictionText entry,
                       category = ''RESTRICTIONS'' \<rparr>) entries)"

definition generateFAQs :: "(string \<Rightarrow> string) \<Rightarrow> knowledgeBase \<Rightarrow> knowledgeBase" where
  "generateFAQs toFixed2 kb =
     kb\<lparr>faqs := Some
          (map equipmentFaq (ownEntries (equipment kb)) @
           map (pricingFaq toFixed2)
             (filter (\<lambda>idt. fst idt \<noteq> ''Unknown item'') (ownEntries (pricing kb))) @
           concat (map restrictionFaqs (ownEntries (restrictions kb))))\<rparr>"

definition organizeKnowledgeBase :: "(string \<Rightarrow> string) \<Rightarrow> knowledgeBase \<Rightarrow> knowledgeBase" where
  "organizeKnowledgeBase toFixed2 kb =
     generateFAQs toFixed2 (kb\<lparr>specifications := dedupSpecifications (specifications kb)\<rparr>)"

subsection \<open>Extraction\<close>

text \<open>
  \<open>processPageContent\<close> after the page text has been stored under \<open>page_N\<close>: the four
  extractors in order.  Only the first can raise; then the others do not run.  The
  result is the knowledge base and whether the function returned.
\<close>

definition processPageContent :: "string \<Rightarrow> nat \<Rightarrow> knowledgeBase \<Rightarrow> knowledgeBase \<times> bool" where
  "processPageContent pageText pageNum kb =
     (case extractEquipmentSpecs pageText pageNum (equipment kb) of
        (eq, False) \<Rightarrow> (kb\<lparr>equipment := eq\<rparr>, False)
      | (eq, True) \<Rightarrow>
          (kb\<lparr>equipment := eq,
              pricing := extractPricingInfo pageText pageNum (pricing kb),
              restrictions := extractRestrictions pageText pageNum (restrictions kb),
              specifications := categorizeSectionContent pageText pageNum (specifications kb)\<rparr>,
           True))"

text \<open>The loop over the pages, numbered from \<open>pageNum\<close> on; a raise ends it.\<close>

fun processPages :: "nat \<Rightarrow> string list \<Rightarrow> knowledgeBase \<Rightarrow> knowledgeBase \<times> bool" where
  "processPages pageNum [] kb = (kb, True)"
| "processPages pageNum (pageText # pages) kb =
     (case processPageContent pageText pageNum
             (kb\<lparr>raw := updateEntry (''page_'' @ showNat pageNum) pageText (raw kb)\<rparr>) of
        (kb', False) \<Rightarrow> (kb', False)
      | (kb', True) \<Rightarrow> processPages (Suc pageNum) pages kb')"

text \<open>
  \<open>extractPdfContent\<close> on the texts of the pages of a loaded document, from the
  knowledge base as it is: the new knowledge base, and whether the function returned it
  (\<open>True\<close>) or caught an error and returned \<open>null\<close> (\<open>False\<close>).  After an error the
  finalization does not run.
\<close>

definition extractPdfContent ::
  "(string \<Rightarrow> string) \<Rightarrow> string list \<Rightarrow> knowledgeBase \<Rightarrow> knowledgeBase \<times> bool" where
  "extractPdfContent toFixed2 pages kb =
     (case processPages 1 pages kb of
        (kb', False) \<Rightarrow> (kb', False)
      | (kb', True) \<Rightarrow> (organizeKnowledgeBase toFixed2 kb', True))"

subsection \<open>Search\<close>

datatype searchHit =
  ErrorMarker string
| EquipmentHit string nat string "nat list"
| PricingHit string string nat
| SpecificationHit string string nat
| RestrictionHit string string nat
| FaqHit string string string
| RawTextHit string string

text \<open>\<open>Object.keys(knowledgeBase).length\<close>: the five properties of the literal, and \<open>faqs\<close> once it exists.\<close>

definition keyCount :: "knowledgeBase \<Rightarrow> nat" where
  "keyCount kb = 5 + (case faqs kb of None \<Rightarrow> 0 | Some fs \<Rightarrow> 1)"

text \<open>\<open>page.replace('page_', '')\<close>: the first occurrence is removed.\<close>

fun removeFirst :: "string \<Rightarrow> string \<Rightarrow> string" where
  "removeFirst p [] = []"
| "removeFirst p (c # cs) =
     (if startsWith (c # cs) p then drop (length p) (c # cs) else c # removeFirst p cs)"

definition structuredHits :: "string \<Rightarrow> knowledgeBase \<Rightarrow> faq list \<Rightarrow> searchHit list" where
  "structuredHits queryLower kb fs =
     map (\<lambda>(name, details). EquipmentHit name (quantity details) (specificationText details)
                               (pageReferences details))
       (filter (\<lambda>(name, details). includesStr (toLowerCase name) queryLower)
          (ownEntries (equipment kb))) @
     map (\<lambda>(item, details). PricingHit item (price details) (pricePage details))
       (filter (\<lambda>(item, details). includesStr (toLowerCase item) queryLower)
          (ownEntries (pricing kb))) @
     concat (map (\<lambda>(cat, entries).
                    map (\<lambda>entry. SpecificationHit cat (content entry) (passagePage entry))
                      (filter (\<lambda>entry. includesStr (toLowerCase (content entry)) queryLower)
                         entries))
               (ownEntries (specifications kb))) @
     concat (map (\<lambda>(kw, entries).
                    if includesStr kw queryLower
                    then map (\<lambda>entry. RestrictionHit kw (restrictionText entry)
                                         (restrictionPage entry)) entries
                    else [])
               (ownEntries (restrictions kb))) @
     map (\<lambda>f. FaqHit (question f) (answer f) (category f))
       (filter (\<lambda>f. includesStr (toLowerCase (question f)) queryLower \<or>
                     includesStr (toLowerCase (answer f)) queryLower) fs)"

definition rawHits :: "string \<Rightarrow> knowledgeBase \<Rightarrow> searchHit list" where
  "rawHits queryLower kb =
     concat (map (\<lambda>(page, text).
                    if includesStr (toLowerCase text) queryLower
                    then map (\<lambda>paragraph. RawTextHit (removeFirst ''page_'' page) (trim paragraph))
                           (filter (\<lambda>paragraph. includesStr (toLowerCase paragraph) queryLower)
                              (paragraphsOf text))
                    else [])
               (ownEntries (raw kb)))"

text \<open>
  \<open>searchKnowledgeBase\<close>: the hits, or \<open>None\<close> when the function raises.  The four
  searches over the objects of the knowledge base come before the search of the FAQs;
  there \<open>knowledgeBase.faqs.forEach\<close> raises a \<open>TypeError\<close> while \<open>faqs\<close> is
  \<open>undefined\<close>.
\<close>

definition searchKnowledgeBase :: "string \<Rightarrow> knowledgeBase \<Rightarrow> searchHit list option" where
  "searchKnowledgeBase query kb =
     (if keyCount kb = 0
      then Some [ErrorMarker ''Knowledge base not loaded. Please load the PDF first.'']
      else
        (let queryLower = toLowerCase query in
         (case faqs kb of
            None \<Rightarrow> None
          | Some fs \<Rightarrow>
              (let results = structuredHits queryLower kb fs
               in if results = [] then Some (rawHits queryLower kb) else Some results))))"

section \<open>Notions used to state the properties\<close>

text \<open>
  Example zones: UTC, and a zone one hour ahead of UTC, as London is in summer.
\<close>

definition utcZone :: zone where
  "utcZone = (\<lambda>t isUTC. 0)"

definition summerZone :: zone where
  "summerZone = (\<lambda>t isUTC. 3600000)"

text \<open>
  London in 2024: one hour ahead of UTC from 01:00 UTC on the 31st of March to 01:00 UTC
  on the 27th of October.  A local time that the clocks skip or repeat is read with the
  offset from before the change, as the standard prescribes.
\<close>

definition londonZone :: zone where
  "londonZone =
     (\<lambda>t isUTC.
        if isUTC then (if 1711846800000 \<le> t \<and> t < 1729990800000 then 3600000 else 0)
        else (if 1711850400000 \<le> t \<and> t < 1729994400000 then 3600000 else 0))"

text \<open>
  An example of an engine's parser, after V8, on dates written with dashes: a year of
  four digits, a month 1 to 12 and a day 1 to 31, where a day beyond the end of the month
  counts on into the next month.  With two digits for both month and day the string has
  the date-only form and is read as UTC; with a single digit for one of them it is read
  as local time.  Every other string is invalid here.
\<close>

definition exParser :: "zone \<Rightarrow> string \<Rightarrow> int option" where
  "exParser z s =
     (case splitOn (\<lambda>c. c = CHR ''-'') s of
        [y, m, d] \<Rightarrow>
          if length y = 4 \<and> list_all isDigit (y @ m @ d) \<and>
             1 \<le> length m \<and> length m \<le> 2 \<and> 1 \<le> length d \<and> length d \<le> 2 \<and>
             1 \<le> digitsVal m \<and> digitsVal m \<le> 12 \<and> 1 \<le> digitsVal d \<and> digitsVal d \<le> 31
          then
            (let t = (daysFromCivil (int (digitsVal y)) (int (digitsVal m)) 1
                        + int (digitsVal d) - 1) * dayInMs
             in Some (if length m = 2 \<and> length d = 2 then t else utcTime z t))
          else None
      | _ \<Rightarrow> None)"

text \<open>
  The day number of a canonical date string \<open>YYYY-MM-DD\<close> that names a day of the
  calendar; \<open>None\<close> for every other string.
\<close>

definition canonicalDay :: "string \<Rightarrow> int option" where
  "canonicalDay s = map_option (\<lambda>t. t div dayInMs) (isoDateOnly s)"

text \<open>
  Example data: an event, an event store held in the durable cache or in the session, an
  element of the listing, and the environment of a call in a zone at an instant.
\<close>

definition exEvent :: "string \<Rightarrow> calendarEvent" where
  "exEvent d = \<lparr> title = ''Night'', date = d, rawDateText = d, time = ''22:00'',
                  description = [], ticketsAvailable = True, url = [], isFallback = False \<rparr>"

definition exState :: "string list \<Rightarrow> calendarState" where
  "exState ds = \<lparr> localStore = Entry (map exEvent ds) (Some 1718399000000) (Some 1718402600000),
                  inMemorySessionCache = \<lparr> events = [], lastFetched = None \<rparr> \<rparr>"

definition exSession :: "calendarEvent list \<Rightarrow> int option \<Rightarrow> calendarState" where
  "exSession evs lf = \<lparr> localStore = NoEntry,
                        inMemorySessionCache = \<lparr> events = evs, lastFetched = lf \<rparr> \<rparr>"

definition exElement :: "string \<Rightarrow> calendarElement" where
  "exElement d = \<lparr> titleNode = Some ''Opening Party'', dateNode = Some d, timeNode = None,
                    descriptionNode = None, textContent = ''Opening Party Book now'',
                    linkHref = None \<rparr>"

definition exEnv :: "zone \<Rightarrow> int \<Rightarrow> fetchOutcome \<Rightarrow> calendarEnv" where
  "exEnv z t r = \<lparr> now = t, zoneOf = z, legacyParse = exParser z, store = StoreOpen,
                   response = r \<rparr>"

text \<open>Example data: a registry holding one item, and a source.\<close>

definition exVersion :: "string \<Rightarrow> string \<Rightarrow> versionRecord" where
  "exVersion d n = \<lparr> lastUpdated = Text d, changeNote = Text n, otherFields = [(''quantity'', ''4'')] \<rparr>"

definition exItem :: "string \<Rightarrow> versionRecord list \<Rightarrow> specItem" where
  "exItem d pv = \<lparr> lastUpdated = Text d, changeNote = Absent, otherFields = [(''quantity'', ''6'')],
                   id = ''cdj-3000'', previousVersions = Some pv \<rparr>"

definition exCatalog :: "string \<Rightarrow> string \<Rightarrow> specItem \<Rightarrow> catalog" where
  "exCatalog ts v item =
     \<lparr> metadata = Some \<lparr> metaLastUpdated = Text ts, version = Text v, baseVersion = Absent \<rparr>,
       categories = Some [(''SOUND'', [(''DJ_EQUIPMENT'', Some [item]), (''PA_SYSTEMS'', Some [])])],
       changeLog = Some [] \<rparr>"

definition exRegistry :: "catalog \<Rightarrow> string \<Rightarrow> bool \<Rightarrow> registry" where
  "exRegistry c ts api =
     \<lparr> specs = Some c, lastSyncTimestamp = Text ts, useApi = api,
       storedSpecifications = Some c, storedLastSyncTimestamp = Some ts \<rparr>"

definition exSource :: "jsonText option httpResult \<Rightarrow> catalog option httpResult \<Rightarrow> syncEnv" where
  "exSource v c = \<lparr> versionResponse = v, specsResponse = c, localResponse = c,
                    storageWritable = True, dateParser = exParser utcZone \<rparr>"

text \<open>A request that gave no value: rejected, refused by status, or not JSON.\<close>

definition requestFailed :: "'a httpResult \<Rightarrow> bool" where
  "requestFailed x = (case x of Ok v \<Rightarrow> False | _ \<Rightarrow> True)"


definition exHeld :: "specItem \<Rightarrow> registry" where
  "exHeld item = exRegistry (exCatalog ''2025-05-13'' ''7.2'' item) ''2025-05-13'' False"

definition exOrdered :: specItem where
  "exOrdered = exItem ''2024-03-10''
                 [exVersion ''2023-10-15'' ''Initial setup'', exVersion ''2024-01-20'' ''Two more'']"

definition exDisordered :: specItem where
  "exDisordered = exItem ''2024-03-10''
                    [exVersion ''2023-10-15'' ''Initial setup'', exVersion ''2024-06-01'' ''Later'']"

text \<open>
  The passages a page adds to a category are already there: their contents occur in the
  category's array.
\<close>

definition holds :: "string \<Rightarrow> nat \<Rightarrow> (string \<times> passage list) list \<Rightarrow> string \<times> string list \<Rightarrow> bool" where
  "holds text pageNum X ck =
     (\<forall>found. foundPassages text pageNum (snd ck) = Some found \<longrightarrow>
        (\<exists>es. map_of X (fst ck) = Some es \<and> set (map content found) \<subseteq> set (map content es)))"

text \<open>
  The sightings of equipment in a document: every match of the equipment pattern, with
  the number of its page, in the order of the document; pages are numbered from \<open>p\<close>.
  The name of a sighting is the captured name, trimmed.
\<close>

fun sightings :: "nat \<Rightarrow> string list \<Rightarrow> (nat \<times> string \<times> string \<times> string option) list" where
  "sightings p [] = []"
| "sightings p (pageText # pages) =
     map (\<lambda>m. (p, m)) (equipmentMatches pageText) @ sightings (Suc p) pages"

definition sightingName :: "nat \<times> string \<times> string \<times> string option \<Rightarrow> string" where
  "sightingName s = trim (fst (snd (snd s)))"

definition addPage :: "nat list \<Rightarrow> nat \<Rightarrow> nat list" where
  "addPage refs p = (if p \<in> set refs then refs else refs @ [p])"

text \<open>
  The equipment fact as the specification describes it, from the sightings of one name:
  the first sighting fixes quantity and specification, and each sighting adds its page
  if the page is new.
\<close>

definition specEquipmentFact ::
  "(nat \<times> string \<times> string \<times> string option) list \<Rightarrow> equipmentEntry option" where
  "specEquipmentFact ss =
     (case ss of
        [] \<Rightarrow> None
      | (p0, q0, nm0, sp0) # rest \<Rightarrow>
          Some \<lparr> quantity = digitsVal q0,
                 specificationText = (case sp0 of None \<Rightarrow> [] | Some s \<Rightarrow> trim s),
                 pageReferences = foldl addPage [p0] (map fst rest) \<rparr>)"

text \<open>The entry of a name after each of its sightings.\<close>

fun applySightings ::
  "equipmentEntry option \<Rightarrow> (nat \<times> string \<times> string \<times> string option) list \<Rightarrow> equipmentEntry option" where
  "applySightings eo [] = eo"
| "applySightings eo ((p, q, nm, sp) # ss) =
     applySightings
       (Some (case eo of
                None \<Rightarrow> \<lparr> quantity = digitsVal q,
                           specificationText = (case sp of None \<Rightarrow> [] | Some s \<Rightarrow> trim s),
                           pageReferences = [p] \<rparr>
              | Some e \<Rightarrow> e\<lparr>pageReferences := addPage (pageReferences e) p\<rparr>)) ss"

section \<open>Verified properties: sorting\<close>

lemma set_insertBy: "set (insertBy cmp x ys) = insert x (set ys)"
  by (induction ys) auto

lemma set_jsSort: "set (jsSort cmp xs) = set xs"
  unfolding jsSort_def by (induction xs) (simp_all add: set_insertBy)

lemma length_insertBy: "length (insertBy cmp x ys) = Suc (length ys)"
  by (induction ys) auto

lemma length_jsSort: "length (jsSort cmp xs) = length xs"
  unfolding jsSort_def by (induction xs) (simp_all add: length_insertBy)

section \<open>Verified properties: calendar store\<close>

text \<open>Canonical dates and the window of days.\<close>

lemma isoDateOnly_Some:
  "isoDateOnly s = Some t \<Longrightarrow> isCanonicalForm s \<and> t = (t div dayInMs) * dayInMs"
  by (auto simp: isoDateOnly_def Let_def dayInMs_def split: if_splits)

lemma canonicalDay_Some:
  assumes "canonicalDay s = Some d"
  shows "isCanonicalForm s" and "s \<noteq> []" and "newDate legacy s = Some (d * dayInMs)"
proof -
  from assms obtain t where t: "isoDateOnly s = Some t" "d = t div dayInMs"
    by (auto simp: canonicalDay_def)
  from isoDateOnly_Some [OF t(1)] show c: "isCanonicalForm s" by simp
  from c show "s \<noteq> []" by (auto simp: isCanonicalForm_def)
  from isoDateOnly_Some [OF t(1)] t show "newDate legacy s = Some (d * dayInMs)"
    by (simp add: newDate_def)
qed

lemma standardizeDate_canonical:
  "isCanonicalForm q \<Longrightarrow> standardizeDate legacy q = q"
  by (simp add: standardizeDate_def)

lemma window_days: "(\<bar>d * dayInMs - dq * dayInMs\<bar> \<le> 3 * dayInMs) = (\<bar>d - dq\<bar> \<le> 3)"
  unfolding dayInMs_def by arith

lemma findNearbyEvents_days:
  assumes q: "canonicalDay q = Some dq"
    and evs: "\<forall>e\<in>set evs. date e = [] \<or> canonicalDay (date e) \<noteq> None"
  shows "findNearbyEvents legacy evs q 3 =
         filter (\<lambda>e. case canonicalDay (date e) of Some d \<Rightarrow> \<bar>d - dq\<bar> \<le> 3 | None \<Rightarrow> False) evs"
  unfolding findNearbyEvents_def
proof (rule filter_cong [OF refl])
  fix e assume e: "e \<in> set evs"
  have empty: "canonicalDay [] = None"
    by (simp add: canonicalDay_def isoDateOnly_def isCanonicalForm_def)
  show "(if date e = [] then False
         else case (newDate legacy (date e), newDate legacy q) of
                (Some eventTimestamp, Some targetTimestamp) \<Rightarrow>
                  \<bar>eventTimestamp - targetTimestamp\<bar> \<le> 3 * dayInMs
              | _ \<Rightarrow> False) =
        (case canonicalDay (date e) of Some d \<Rightarrow> \<bar>d - dq\<bar> \<le> 3 | None \<Rightarrow> False)"
  proof (cases "date e = []")
    case True
    then show ?thesis by (simp add: empty)
  next
    case False
    with evs e obtain d where d: "canonicalDay (date e) = Some d" by auto
    show ?thesis
      using False d canonicalDay_Some(3) [OF d, of legacy] canonicalDay_Some(3) [OF q, of legacy]
      by (simp add: window_days)
  qed
qed

text \<open>The lookup, by what the normalisation and the event store give.\<close>

lemma getEventForDate_invalid:
  "standardizeDate (legacyParse env) q = [] \<Longrightarrow>
   getEventForDate env q st = Some (NotFound ''Invalid date format'', st)"
  by (simp add: getEventForDate_def)

lemma getEventForDate_returns:
  assumes "standardizeDate (legacyParse env) q \<noteq> []"
    and "fetchAllEvents env st = Some (Returns evs, st')"
  shows "getEventForDate env q st =
     Some (let sd = standardizeDate (legacyParse env) q in
           case find (\<lambda>e. date e = sd) evs of
             Some e \<Rightarrow> ExactMatch e
           | None \<Rightarrow>
               if findNearbyEvents (legacyParse env) evs sd 3 \<noteq> []
               then NearMatch (findNearbyEvents (legacyParse env) evs sd 3)
               else NotFound ''No events found for this date'', st')"
  using assms by (simp add: getEventForDate_def Let_def split: option.splits)

lemma getEventForDate_raises:
  assumes "standardizeDate (legacyParse env) q \<noteq> []"
    and "fetchAllEvents env st = Some (Raises, st')"
  shows "getEventForDate env q st = Some (ErrorResult ''Error fetching event information'', st')"
  using assms by (simp add: getEventForDate_def Let_def)

lemma getEventForDate_match:
  assumes "getEventForDate env q st = Some (res, st')"
    and "res = ExactMatch e \<or> res = NearMatch es"
  shows "standardizeDate (legacyParse env) q \<noteq> [] \<and>
         (\<exists>evs. fetchAllEvents env st = Some (Returns evs, st'))"
proof (cases "standardizeDate (legacyParse env) q = []")
  case True
  with assms show ?thesis by (auto simp: getEventForDate_invalid)
next
  case False
  show ?thesis
  proof (cases "fetchAllEvents env st")
    case None
    with False assms show ?thesis by (simp add: getEventForDate_def Let_def)
  next
    case (Some p)
    obtain c s where p: "p = (c, s)" by (cases p)
    show ?thesis
    proof (cases c)
      case Raises
      with Some p False assms show ?thesis
        by (auto simp: getEventForDate_raises)
    next
      case (Returns evs)
      with Some p have f: "fetchAllEvents env st = Some (Returns evs, s)" by simp
      from getEventForDate_returns [OF False f] assms(1) have "s = st'" by simp
      with f False show ?thesis by simp
    qed
  qed
qed

text \<open>
  A query that normalises to a day of the calendar, on a store whose events carry an
  empty date or such a canonical date: the lookup returns the first event whose date
  equals the normalised query as an exact match; otherwise, as a non-exact match, exactly
  the events at most three days away, in the order of the store, if there is one;
  otherwise the not-found result with its message.
\<close>

lemma getEventForDate_day:
  assumes q: "canonicalDay (standardizeDate (legacyParse env) q) = Some dq"
    and f: "fetchAllEvents env st = Some (Returns evs, st')"
    and evs: "\<forall>e\<in>set evs. date e = [] \<or> canonicalDay (date e) \<noteq> None"
  shows "getEventForDate env q st =
      Some (let near = filter (\<lambda>e. case canonicalDay (date e) of
                                 Some d \<Rightarrow> \<bar>d - dq\<bar> \<le> 3 | None \<Rightarrow> False) evs
            in case find (\<lambda>e. date e = standardizeDate (legacyParse env) q) evs of
                 Some e \<Rightarrow> ExactMatch e
               | None \<Rightarrow> if near \<noteq> [] then NearMatch near
                         else NotFound ''No events found for this date'', st')"
proof -
  let ?sd = "standardizeDate (legacyParse env) q"
  have ne: "?sd \<noteq> []"
    using canonicalDay_Some(2) [OF q] by simp
  have near: "findNearbyEvents (legacyParse env) evs ?sd 3 =
      filter (\<lambda>e. case canonicalDay (date e) of Some d \<Rightarrow> \<bar>d - dq\<bar> \<le> 3 | None \<Rightarrow> False) evs"
    using q evs by (rule findNearbyEvents_days)
  show ?thesis
    unfolding getEventForDate_returns [OF ne f] Let_def near by (rule refl)
qed

text \<open>
  C2.  A query of the canonical form that names no day.  The string \<open>2024-13-45\<close> has
  the form \<open>YYYY-MM-DD\<close>, so the normalisation returns it as it is, although it is not
  the canonical date of any day.  The lookup does not return the invalid-format result:
  it reads the event store (the durable cache is copied into the session) and answers
  that no events were found.  For \<open>2024-02-30\<close>, with an engine that counts the 30th of
  February on into March, it returns the event of the first of March as a near match.
\<close>

theorem getEventForDate_nondate_query:
  "canonicalDay ''2024-13-45'' = None \<and>
   standardizeDate (exParser utcZone) ''2024-13-45'' = ''2024-13-45'' \<and>
   getEventForDate (exEnv utcZone 1718400000000 Rejected) ''2024-13-45'' (exState [''2024-06-15''])
     = Some (NotFound ''No events found for this date'',
             (exState [''2024-06-15''])
               \<lparr>inMemorySessionCache :=
                  \<lparr>events = [exEvent ''2024-06-15''], lastFetched = Some 1718399000000\<rparr>\<rparr>) \<and>
   canonicalDay ''2024-02-30'' = None \<and>
   getEventForDate (exEnv utcZone 1718400000000 Rejected) ''2024-02-30'' (exState [''2024-03-01''])
     = Some (NearMatch [exEvent ''2024-03-01''],
             (exState [''2024-03-01''])
               \<lparr>inMemorySessionCache :=
                  \<lparr>events = [exEvent ''2024-03-01''], lastFetched = Some 1718399000000\<rparr>\<rparr>)"
  by code_simp

text \<open>Events without a date.\<close>

lemma parseCalendarEvents_retains:
  assumes "el \<in> set elements"
  shows "\<exists>evs. parseCalendarEvents z legacy nw elements = Some (Returns evs) \<and>
               parseElement z legacy el \<in> set evs"
proof -
  let ?evs = "jsSort (\<lambda>a b. dateDiff legacy (date b) (date a)) (map (parseElement z legacy) elements)"
  have mem: "parseElement z legacy el \<in> set ?evs"
    using assms by (simp add: set_jsSort)
  then have "?evs \<noteq> []" by auto
  then have "parseCalendarEvents z legacy nw elements = Some (Returns ?evs)"
    by (simp add: parseCalendarEvents_def Let_def)
  with mem show ?thesis by blast
qed

lemma parseElement_date:
  "date (parseElement z legacy el) = parseCalendarDate z legacy (rawDateText (parseElement z legacy el))"
  by (simp add: parseElement_def Let_def)

lemma exact_match_dated:
  assumes "getEventForDate env q st = Some (ExactMatch e, st')"
  shows "date e \<noteq> []"
proof -
  from getEventForDate_match [OF assms, of e "[]"] obtain evs
    where ne: "standardizeDate (legacyParse env) q \<noteq> []"
      and f: "fetchAllEvents env st = Some (Returns evs, st')"
    by auto
  from assms have "find (\<lambda>ev. date ev = standardizeDate (legacyParse env) q) evs = Some e"
    unfolding getEventForDate_returns [OF ne f] Let_def
    by (simp split: option.splits if_splits)
  then have "date e = standardizeDate (legacyParse env) q"
    by (auto simp: find_Some_iff)
  with ne show ?thesis by simp
qed

lemma near_match_dated:
  assumes "getEventForDate env q st = Some (NearMatch es, st')"
  shows "\<forall>e\<in>set es. date e \<noteq> []"
proof -
  from getEventForDate_match [OF assms, of undefined es] obtain evs
    where ne: "standardizeDate (legacyParse env) q \<noteq> []"
      and f: "fetchAllEvents env st = Some (Returns evs, st')"
    by auto
  from assms have "es = findNearbyEvents (legacyParse env) evs
                          (standardizeDate (legacyParse env) q) 3"
    unfolding getEventForDate_returns [OF ne f] Let_def
    by (simp split: option.splits if_splits)
  then show ?thesis by (auto simp: findNearbyEvents_def)
qed

text \<open>
  C10.  Every selected element yields an event of the parsed sequence, whatever its date
  text: the parsing returns, and an unparseable text only makes the event's date empty.
  An exact match always carries a non-empty date, and so does every event of a near
  match; an event without a date is in neither, for every store and every query.
\<close>

theorem undated_event_kept_never_matched:
  "(el \<in> set elements \<longrightarrow>
      (\<exists>evs. parseCalendarEvents z legacy nw elements = Some (Returns evs) \<and>
             parseElement z legacy el \<in> set evs) \<and>
      date (parseElement z legacy el) =
        parseCalendarDate z legacy (rawDateText (parseElement z legacy el))) \<and>
   (getEventForDate env q st = Some (ExactMatch e, st') \<longrightarrow> date e \<noteq> []) \<and>
   (getEventForDate env q st = Some (NearMatch es, st') \<longrightarrow> (\<forall>e\<in>set es. date e \<noteq> []))"
  using parseCalendarEvents_retains [of el elements z legacy nw] parseElement_date [of z legacy el]
    exact_match_dated [of env q st e st'] near_match_dated [of env q st es st']
  by blast

theorem undated_event_kept_never_matched_witness:
  "exElement ''TBA'' \<in> set [exElement ''TBA''] \<and>
   parseCalendarEvents utcZone (\<lambda>s. None) 0 [exElement ''TBA'']
     = Some (Returns [parseElement utcZone (\<lambda>s. None) (exElement ''TBA'')]) \<and>
   date (parseElement utcZone (\<lambda>s. None) (exElement ''TBA'')) = [] \<and>
   getEventForDate (exEnv utcZone 1718400000000 Rejected) ''2024-06-15'' (exState [[], ''2024-06-15''])
     = Some (ExactMatch (exEvent ''2024-06-15''),
             (exState [[], ''2024-06-15''])
               \<lparr>inMemorySessionCache :=
                  \<lparr>events = [exEvent [], exEvent ''2024-06-15''], lastFetched = Some 1718399000000\<rparr>\<rparr>) \<and>
   date (exEvent ''2024-06-15'') \<noteq> [] \<and>
   getEventForDate (exEnv utcZone 1718400000000 Rejected) ''2024-06-15'' (exState [[], ''2024-06-16''])
     = Some (NearMatch [exEvent ''2024-06-16''],
             (exState [[], ''2024-06-16''])
               \<lparr>inMemorySessionCache :=
                  \<lparr>events = [exEvent [], exEvent ''2024-06-16''], lastFetched = Some 1718399000000\<rparr>\<rparr>) \<and>
   list_all (\<lambda>e. date e \<noteq> []) [exEvent ''2024-06-16'']"
proof -
  let ?el = "exElement ''TBA''" and ?env = "exEnv utcZone 1718400000000 Rejected"
  let ?L = "\<lambda>s::string. None :: int option"
  let ?s1 = "(exState [[], ''2024-06-15''])
               \<lparr>inMemorySessionCache :=
                  \<lparr>events = [exEvent [], exEvent ''2024-06-15''], lastFetched = Some 1718399000000\<rparr>\<rparr>"
  let ?s2 = "(exState [[], ''2024-06-16''])
               \<lparr>inMemorySessionCache :=
                  \<lparr>events = [exEvent [], exEvent ''2024-06-16''], lastFetched = Some 1718399000000\<rparr>\<rparr>"
  note claim = undated_event_kept_never_matched
  have a: "?el \<in> set [?el]" by simp
  have p: "parseCalendarEvents utcZone ?L 0 [?el] = Some (Returns [parseElement utcZone ?L ?el])"
    by (simp add: parseCalendarEvents_def jsSort_def)
  have d: "parseCalendarDate utcZone ?L (rawDateText (parseElement utcZone ?L ?el)) = []"
    by code_simp
  have x: "getEventForDate ?env ''2024-06-15'' (exState [[], ''2024-06-15''])
             = Some (ExactMatch (exEvent ''2024-06-15''), ?s1)"
    by code_simp
  have n: "getEventForDate ?env ''2024-06-15'' (exState [[], ''2024-06-16''])
             = Some (NearMatch [exEvent ''2024-06-16''], ?s2)"
    by code_simp
  from claim [of ?el "[?el]" utcZone ?L 0 ?env "''2024-06-15''" "exState [[], ''2024-06-15'']"
               "exEvent ''2024-06-15''" ?s1 "[]"] a d x
  have c2: "date (parseElement utcZone ?L ?el) = []"
    and c3: "date (exEvent ''2024-06-15'') \<noteq> []"
    by simp_all
  from claim [of ?el "[?el]" utcZone ?L 0 ?env "''2024-06-15''" "exState [[], ''2024-06-16'']"
               "exEvent ''2024-06-15''" ?s2 "[exEvent ''2024-06-16'']"] n
  have c4: "list_all (\<lambda>e. date e \<noteq> []) [exEvent ''2024-06-16'']"
    by (simp only: list_all_iff) blast
  show ?thesis
    by (intro conjI) (rule a p c2 x c3 n c4)+
qed

lemma splitOn_single: "\<forall>c\<in>set s. \<not> P c \<Longrightarrow> splitOn P s = [s]"
  by (induction s) auto

lemma splitOn_many_sep:
  assumes "splitOn P s = a # b # rest"
  shows "\<exists>c\<in>set s. P c"
proof (rule ccontr)
  assume "\<not> (\<exists>c\<in>set s. P c)"
  then have "splitOn P s = [s]" by (intro splitOn_single) simp
  with assms show False by simp
qed

text \<open>
  The order of the two readings.  For a string that is not already canonical and whose
  third piece between slashes or dashes has four characters, the normalisation has the
  engine parse year-month-day with the first piece as the day and the second as the
  month; only if that date is invalid, with the first piece as the month and the second
  as the day; if both are invalid the result is empty.  The pieces are put together as
  they are written.
\<close>

lemma standardizeDate_dmy:
  assumes nc: "\<not> isCanonicalForm s"
    and parts: "splitOn isDateSep s = d # m # y # rest"
    and len: "length y = 4"
  shows "standardizeDate legacy s =
     (case newDate legacy (y @ ''-'' @ m @ ''-'' @ d) of
        Some t \<Rightarrow> toISODate t
      | None \<Rightarrow>
          (case newDate legacy (y @ ''-'' @ d @ ''-'' @ m) of
             Some t \<Rightarrow> toISODate t
           | None \<Rightarrow> []))"
proof -
  from splitOn_many_sep [OF parts] have sep: "CHR ''/'' \<in> set s \<or> CHR ''-'' \<in> set s"
    by (auto simp: isDateSep_def)
  from len have y: "y \<noteq> []" by auto
  show ?thesis
    using nc sep y len
    by (simp add: standardizeDate_def parts nthOpt_def tpl_def Let_def split: option.splits)
qed

text \<open>
  C9.  Dates that are not serialised as the day, month and year they were read as.  The
  day 15/6/2024 is put together as \<open>2024-6-15\<close>, which is not of the date-only form:
  an engine that reads it at all reads it as local time, and one hour ahead of UTC the
  local midnight of the 15th serialises as the 14th.  The day 31/02/2024 does not exist
  in either order; an engine that counts the 31st of February on into March gives the
  2nd of March instead of the empty result.  The string \<open>2024-13-45\<close> is returned as it
  is.  With two digits for day and month and a day that exists, the result is that day,
  in the order day-month first: 05/06/2024 is the 5th of June and 06/15/2024 the 15th of
  June.
\<close>

theorem standardizeDate_wrong_day:
  "standardizeDate (exParser summerZone) ''15/6/2024'' = ''2024-06-14'' \<and>
   standardizeDate (exParser utcZone) ''31/02/2024'' = ''2024-03-02'' \<and>
   standardizeDate (exParser utcZone) ''2024-13-45'' = ''2024-13-45'' \<and>
   standardizeDate (exParser summerZone) ''05/06/2024'' = ''2024-06-05'' \<and>
   standardizeDate (exParser summerZone) ''06/15/2024'' = ''2024-06-15''"
  by code_simp

text \<open>
  The failing request.  When the durable cache gives no events and the request fails, the
  events returned are those of the in-session cache if it holds any, whatever their age,
  and the state is as the cache lookup left it; with an empty in-session cache the
  result is that of the fallback generation.
\<close>

lemma fetchAllEvents_failure:
  assumes cache: "getCalendarCache env st = (Returns sc, st1)"
    and miss: "case sc of Some c \<Rightarrow> events c = [] | None \<Rightarrow> True"
    and fail: "case response env of Document els \<Rightarrow> False | _ \<Rightarrow> True"
  shows "fetchAllEvents env st =
           (if events (inMemorySessionCache st) \<noteq> []
            then Some (Returns (events (inMemorySessionCache st)), st1)
            else map_option (\<lambda>r. (r, st1)) (getFallbackEvents (zoneOf env) (now env)))"
proof -
  have mem: "inMemorySessionCache st1 = inMemorySessionCache st"
    using cache by (auto simp: getCalendarCache_def split: storedCache.splits if_splits)
  have sc: "(case sc of Some c \<Rightarrow> if events c \<noteq> [] then Some c else None | None \<Rightarrow> None) = None"
    using miss by (auto split: option.splits)
  show ?thesis
    using fail
    by (simp add: fetchAllEvents_def fetchFailed_def cache sc mem Let_def split: fetchOutcome.splits)
qed

text \<open>
  The fallback generation in a zone with a fixed offset, at an instant at least 36 days
  inside the range of \<open>Date\<close>: the loop for the Friday ends at the first Friday on or
  after the present local day, and the ten dates are that Friday, the day after it, and
  the same two days of the four following weeks, Fridays and Saturdays in local time.
\<close>

lemma addLocalDays_fixed:
  assumes "\<forall>t b. z t b = c"
  shows "addLocalDays z t k = timeClip (t + k * dayInMs)"
  using assms by (simp add: addLocalDays_def localTime_def utcTime_def)

lemma getDay_range: "0 \<le> getDay z t \<and> getDay z t < 7"
  by (simp add: getDay_def weekDay_def)

lemma getDay_fixed_add:
  assumes "\<forall>t b. z t b = c"
  shows "getDay z (t + k * dayInMs) = (getDay z t + k) mod 7"
proof -
  have "(t + k * dayInMs + c) div dayInMs = (t + c) div dayInMs + k"
    by (simp add: dayInMs_def add.commute add.left_commute)
  then show ?thesis
    using assms unfolding getDay_def weekDay_def localTime_def
    by (simp add: mod_simps add.commute add.left_commute)
qed

lemma toFriday_steps:
  assumes fixed: "\<forall>t b. z t b = c"
  shows "(5 - getDay z t) mod 7 = int n \<Longrightarrow> \<bar>t\<bar> + int n * dayInMs \<le> maxTime \<Longrightarrow>
         toFriday z t = Some (t + int n * dayInMs)"
proof (induction n arbitrary: t)
  case 0
  have g: "0 \<le> getDay z t" "getDay z t < 7" using getDay_range by auto
  with 0 have "getDay z t = 5" by presburger
  then show ?case by (subst toFriday.simps) simp
next
  case (Suc n)
  have g: "0 \<le> getDay z t" "getDay z t < 7" using getDay_range by auto
  have d: "0 < dayInMs" by (simp add: dayInMs_def)
  have ne: "getDay z t \<noteq> 5" using Suc.prems(1) by auto
  have nd: "0 \<le> int n * dayInMs" using d by simp
  have e: "int (Suc n) * dayInMs = dayInMs + int n * dayInMs" by (simp add: distrib_right)
  have r: "\<bar>t + dayInMs\<bar> \<le> maxTime"
    using Suc.prems(2) d nd unfolding e by arith
  have step: "addLocalDays z t 1 = Some (t + dayInMs)"
    using r by (simp add: addLocalDays_fixed [OF fixed] timeClip_def)
  have nxt: "getDay z (t + dayInMs) = (getDay z t + 1) mod 7"
    using getDay_fixed_add [OF fixed, of t 1] by simp
  have c: "getDay z t = 0 \<or> getDay z t = 1 \<or> getDay z t = 2 \<or> getDay z t = 3 \<or>
           getDay z t = 4 \<or> getDay z t = 6"
    using g ne by arith
  have m: "(5 - getDay z (t + dayInMs)) mod 7 = int n"
    unfolding nxt using c Suc.prems(1) by (elim disjE) simp_all
  have r2: "\<bar>t + dayInMs\<bar> + int n * dayInMs \<le> maxTime"
    using Suc.prems(2) d nd unfolding e by arith
  have "toFriday z t = toFriday z (t + dayInMs)"
    using ne step by (subst toFriday.simps) simp
  also have "\<dots> = Some (t + dayInMs + int n * dayInMs)"
    using m r2 by (rule Suc.IH)
  finally show ?case by (simp add: distrib_right)
qed

lemma toFriday_fixed:
  assumes fixed: "\<forall>t b. z t b = c" and rng: "\<bar>t\<bar> + 6 * dayInMs \<le> maxTime"
  shows "toFriday z t = Some (t + ((5 - getDay z t) mod 7) * dayInMs)"
proof -
  let ?k = "(5 - getDay z t) mod 7"
  have k: "0 \<le> ?k" "?k \<le> 6" by simp_all
  have d: "0 < dayInMs" by (simp add: dayInMs_def)
  have "?k * dayInMs \<le> 6 * dayInMs" using k d by simp
  then have "\<bar>t\<bar> + int (nat ?k) * dayInMs \<le> maxTime" using rng k by simp
  moreover have "?k = int (nat ?k)" using k by simp
  ultimately show ?thesis
    using toFriday_steps [OF fixed, of t "nat ?k"] by simp
qed

lemma upcomingDates_fixed:
  assumes fixed: "\<forall>t b. z t b = c" and rng: "\<bar>F\<bar> + 29 * dayInMs \<le> maxTime"
  shows "those (upcomingDates z 5 (Some F)) =
     Some [F, F + dayInMs, F + 7 * dayInMs, F + 8 * dayInMs, F + 14 * dayInMs, F + 15 * dayInMs,
           F + 21 * dayInMs, F + 22 * dayInMs, F + 28 * dayInMs, F + 29 * dayInMs]"
proof -
  have lo: "- 8640000000000000 \<le> F" and hi: "F + 2505600000 \<le> 8640000000000000"
    using rng unfolding dayInMs_def maxTime_def by arith+
  have clip: "\<And>t. - 8640000000000000 \<le> t \<Longrightarrow> t \<le> 8640000000000000 \<Longrightarrow> timeClip t = Some t"
    by (simp add: timeClip_def maxTime_def)
  show ?thesis
    using lo hi
    by (simp add: eval_nat_numeral setDatePlus_def addLocalDays_fixed [OF fixed] clip dayInMs_def)
qed

lemma getFallbackEvents_fixed:
  assumes fixed: "\<forall>t b. z t b = c" and rng: "\<bar>t0\<bar> + 35 * dayInMs \<le> maxTime"
  shows "let F = t0 + ((5 - getDay z t0) mod 7) * dayInMs;
             days = [F, F + dayInMs, F + 7 * dayInMs, F + 8 * dayInMs, F + 14 * dayInMs,
                     F + 15 * dayInMs, F + 21 * dayInMs, F + 22 * dayInMs, F + 28 * dayInMs,
                     F + 29 * dayInMs]
         in getFallbackEvents z t0 = Some (Returns (map (fallbackEvent z) days)) \<and>
            map (getDay z) days = [5, 6, 5, 6, 5, 6, 5, 6, 5, 6]"
proof -
  let ?k = "(5 - getDay z t0) mod 7"
  let ?F = "t0 + ?k * dayInMs"
  have k: "0 \<le> ?k" "?k \<le> 6" by simp_all
  have d: "0 < dayInMs" by (simp add: dayInMs_def)
  have kd: "?k * dayInMs \<le> 6 * dayInMs" "0 \<le> ?k * dayInMs" using k d by simp_all
  have r1: "\<bar>t0\<bar> + 6 * dayInMs \<le> maxTime" using rng d by simp
  have r2: "\<bar>?F\<bar> + 29 * dayInMs \<le> maxTime" using rng kd by simp
  have g: "0 \<le> getDay z t0" "getDay z t0 < 7" using getDay_range by auto
  then have "getDay z t0 = 0 \<or> getDay z t0 = 1 \<or> getDay z t0 = 2 \<or> getDay z t0 = 3 \<or>
          getDay z t0 = 4 \<or> getDay z t0 = 5 \<or> getDay z t0 = 6"
    by arith
  then have "(getDay z t0 + ?k) mod 7 = 5"
    by (elim disjE) simp_all
  then have fri: "getDay z ?F = 5"
    unfolding getDay_fixed_add [OF fixed] .
  have days: "map (getDay z)
     [?F, ?F + dayInMs, ?F + 7 * dayInMs, ?F + 8 * dayInMs, ?F + 14 * dayInMs, ?F + 15 * dayInMs,
      ?F + 21 * dayInMs, ?F + 22 * dayInMs, ?F + 28 * dayInMs, ?F + 29 * dayInMs]
     = [5, 6, 5, 6, 5, 6, 5, 6, 5, 6]"
    using fri getDay_fixed_add [OF fixed, of ?F 1] by (simp add: getDay_fixed_add [OF fixed])
  have "getFallbackEvents z t0 =
          Some (Returns (map (fallbackEvent z)
            [?F, ?F + dayInMs, ?F + 7 * dayInMs, ?F + 8 * dayInMs, ?F + 14 * dayInMs,
             ?F + 15 * dayInMs, ?F + 21 * dayInMs, ?F + 22 * dayInMs, ?F + 28 * dayInMs,
             ?F + 29 * dayInMs]))"
    by (simp add: getFallbackEvents_def toFriday_fixed [OF fixed r1]
          upcomingDates_fixed [OF fixed r2] del: upcomingDates.simps)
  with days show ?thesis unfolding Let_def by (intro conjI)
qed

text \<open>
  Across a change of the clocks the days are still counted on the local calendar.  From
  noon on Friday the 29th of March 2024 in London, the third date is noon of Friday the
  5th of April in summer time, which is 11:00 UTC: six days less one hour after the
  second date.
\<close>

lemma fallback_across_clock_change:
  "getDay londonZone 1711713600000 = 5 \<and>
   those (upcomingDates londonZone 5 (Some 1711713600000)) =
     Some [1711713600000, 1711800000000, 1712314800000, 1712401200000, 1712919600000,
           1713006000000, 1713524400000, 1713610800000, 1714129200000, 1714215600000] \<and>
   map (getDay londonZone) [1711713600000, 1711800000000, 1712314800000, 1712401200000]
     = [5, 6, 5, 6]"
  by code_simp

text \<open>
  C3.  The fallback events one hour ahead of UTC, half an hour after local midnight.  It
  is Friday the 14th of June 2024 in local time.  The request is rejected and both caches
  are empty, so the ten fallback events are returned.  Their days are found on the local
  calendar, but each date string is the UTC day of the same instant: the first event is
  dated 2024-06-13, a Thursday, under the title of the Friday night, and the second is
  dated 2024-06-14, a Friday, under the title of the Saturday night.
\<close>

theorem fallback_events_dated_in_utc:
  "getDay summerZone 1718321400000 = 5 \<and>
   toLocaleDateGB summerZone 1718321400000 = ''14 June 2024'' \<and>
   fetchAllEvents (exEnv summerZone 1718321400000 Rejected) (exSession [] None)
     = Some (Returns (map (fallbackEvent summerZone)
                        [1718321400000, 1718407800000, 1718926200000, 1719012600000,
                         1719531000000, 1719617400000, 1720135800000, 1720222200000,
                         1720740600000, 1720827000000]),
             exSession [] None) \<and>
   date (fallbackEvent summerZone 1718321400000) = ''2024-06-13'' \<and>
   title (fallbackEvent summerZone 1718321400000) = ''Friday Night Live at Studio 338 (2024-06-13)'' \<and>
   map_option weekDay (canonicalDay ''2024-06-13'') = Some 4 \<and>
   date (fallbackEvent summerZone 1718407800000) = ''2024-06-14'' \<and>
   title (fallbackEvent summerZone 1718407800000) = ''Saturday Sessions (2024-06-14)'' \<and>
   map_option weekDay (canonicalDay ''2024-06-14'') = Some 5"
proof -
  have F: "toFriday summerZone 1718321400000 = Some 1718321400000"
    by code_simp
  have U: "those (upcomingDates summerZone 5 (Some 1718321400000)) =
             Some [1718321400000, 1718407800000, 1718926200000, 1719012600000,
                   1719531000000, 1719617400000, 1720135800000, 1720222200000,
                   1720740600000, 1720827000000]"
    by code_simp
  have G: "getFallbackEvents summerZone 1718321400000 =
             Some (Returns (map (fallbackEvent summerZone)
                        [1718321400000, 1718407800000, 1718926200000, 1719012600000,
                         1719531000000, 1719617400000, 1720135800000, 1720222200000,
                         1720740600000, 1720827000000]))"
    by (simp add: getFallbackEvents_def F U del: upcomingDates.simps)
  have c3: "fetchAllEvents (exEnv summerZone 1718321400000 Rejected) (exSession [] None)
     = Some (Returns (map (fallbackEvent summerZone)
                        [1718321400000, 1718407800000, 1718926200000, 1719012600000,
                         1719531000000, 1719617400000, 1720135800000, 1720222200000,
                         1720740600000, 1720827000000]),
             exSession [] None)"
    by (simp add: fetchAllEvents_def getCalendarCache_def fetchFailed_def exEnv_def exSession_def G
          del: list.map)
  have c1: "getDay summerZone 1718321400000 = 5" by code_simp
  have c2: "toLocaleDateGB summerZone 1718321400000 = ''14 June 2024''" by code_simp
  have c4: "date (fallbackEvent summerZone 1718321400000) = ''2024-06-13''" by code_simp
  have c5: "title (fallbackEvent summerZone 1718321400000) = ''Friday Night Live at Studio 338 (2024-06-13)''"
    by code_simp
  have c6: "map_option weekDay (canonicalDay ''2024-06-13'') = Some 4" by code_simp
  have c7: "date (fallbackEvent summerZone 1718407800000) = ''2024-06-14''" by code_simp
  have c8: "title (fallbackEvent summerZone 1718407800000) = ''Saturday Sessions (2024-06-14)''"
    by code_simp
  have c9: "map_option weekDay (canonicalDay ''2024-06-14'') = Some 5" by code_simp
  show ?thesis
    by (intro conjI) (rule c1 c2 c3 c4 c5 c6 c7 c8 c9)+
qed

section \<open>Verified properties: specification registry\<close>

lemma applyUpdate_not_needed [simp]: "applyUpdate env r False c ts = (False, r)"
  by (simp add: applyUpdate_def)

lemma applyUpdate_no_catalog [simp]: "applyUpdate env r b None ts = (False, r)"
  by (simp add: applyUpdate_def split: bool.splits)







text \<open>
  Requests that fail.  When a request of the synchronisation is rejected, answers with a
  status that is not ok, or has a body that is not JSON, and also when the local file
  holds \<open>null\<close> or a catalog without metadata, the operation returns \<open>false\<close> and the
  manager is exactly as before.
\<close>

lemma sync_request_failure:
  assumes "(useApi r \<and> (requestFailed (versionResponse env) \<or> versionResponse env = Ok None)) \<or>
     (useApi r \<and> requestFailed (specsResponse env)) \<or>
     (\<not> useApi r \<and> (requestFailed (localResponse env) \<or> localResponse env = Ok None \<or>
        (\<exists>c. localResponse env = Ok (Some c) \<and> metadata c = None)))"
  shows "syncSpecifications env r = (False, r)"
  using assms
  by (auto simp: syncSpecifications_def requestFailed_def Let_def
           split: httpResult.splits option.splits)

text \<open>
  C5.  A failure after the two assignments.  The manager holds version 7.2 of the
  catalog, remembered as of 2025-05-13; the local file offers version 7.3 of 2025-06-01;
  the durable store refuses the write (\<open>setItem\<close> raises, as it does when the quota is
  exceeded).  The operation catches the error and returns \<open>false\<close>, but the held
  catalog and the remembered timestamp are those of the file: they were assigned before
  the write.  The durable store keeps the old entries.  In API mode the same happens
  with a store that accepts the write and a catalog without metadata: the final log
  line raises after the catalog has been assigned and stored.
\<close>

theorem sync_failure_replaces_catalog:
  "syncSpecifications
     ((exSource BadJson (Ok (Some (exCatalog ''2025-06-01'' ''7.3'' (exItem ''2024-03-10'' [])))))
        \<lparr>storageWritable := False\<rparr>)
     (exRegistry (exCatalog ''2025-05-13'' ''7.2'' (exItem ''2024-03-10'' [])) ''2025-05-13'' False)
   = (False,
      (exRegistry (exCatalog ''2025-05-13'' ''7.2'' (exItem ''2024-03-10'' [])) ''2025-05-13'' False)
        \<lparr>specs := Some (exCatalog ''2025-06-01'' ''7.3'' (exItem ''2024-03-10'' [])),
         lastSyncTimestamp := Text ''2025-06-01''\<rparr>) \<and>
   syncSpecifications
     (exSource (Ok (Some (Text ''2025-06-01'')))
        (Ok (Some ((exCatalog ''2025-06-01'' ''7.3'' (exItem ''2024-03-10'' []))\<lparr>metadata := None\<rparr>))))
     (exRegistry (exCatalog ''2025-05-13'' ''7.2'' (exItem ''2024-03-10'' [])) ''2025-05-13'' True)
   = (False,
      exRegistry ((exCatalog ''2025-06-01'' ''7.3'' (exItem ''2024-03-10'' []))\<lparr>metadata := None\<rparr>)
        ''2025-06-01'' True)"
proof -
  have newer: "dateGreater (exParser utcZone) (Text ''2025-06-01'') (Text ''2025-05-13'')"
    by code_simp
  have later: "jsGreater (Text ''2025-06-01'') (Text ''2025-05-13'')"
    by code_simp
  show ?thesis
    using newer later
    by (simp add: syncSpecifications_def applyUpdate_def exSource_def exRegistry_def exCatalog_def
          truthy_def toStr_def Let_def)
qed

theorem sync_failure_replaces_catalog_witness:
  "fst (syncSpecifications
     ((exSource BadJson (Ok (Some (exCatalog ''2025-06-01'' ''7.3'' (exItem ''2024-03-10'' [])))))
        \<lparr>storageWritable := False\<rparr>)
     (exRegistry (exCatalog ''2025-05-13'' ''7.2'' (exItem ''2024-03-10'' [])) ''2025-05-13'' False))
   = False \<and>
   map_option (map_option version \<circ> metadata) (specs (snd (syncSpecifications
     ((exSource BadJson (Ok (Some (exCatalog ''2025-06-01'' ''7.3'' (exItem ''2024-03-10'' [])))))
        \<lparr>storageWritable := False\<rparr>)
     (exRegistry (exCatalog ''2025-05-13'' ''7.2'' (exItem ''2024-03-10'' [])) ''2025-05-13'' False))))
   = Some (Some (Text ''7.3'')) \<and>
   lastSyncTimestamp (snd (syncSpecifications
     ((exSource BadJson (Ok (Some (exCatalog ''2025-06-01'' ''7.3'' (exItem ''2024-03-10'' [])))))
        \<lparr>storageWritable := False\<rparr>)
     (exRegistry (exCatalog ''2025-05-13'' ''7.2'' (exItem ''2024-03-10'' [])) ''2025-05-13'' False)))
   = Text ''2025-06-01''"
proof -
  note claim = sync_failure_replaces_catalog [THEN conjunct1]
  show ?thesis
    unfolding claim by (simp add: exCatalog_def)
qed




text \<open>The sort keeps the records and orders them when the comparator comes from a key.\<close>

lemma mset_insertBy: "mset (insertBy cmp x ys) = add_mset x (mset ys)"
  by (induction ys) auto

lemma mset_jsSort: "mset (jsSort cmp xs) = mset xs"
  unfolding jsSort_def by (induction xs) (simp_all add: mset_insertBy)

lemma jsSort_Cons: "jsSort cmp (x # xs) = insertBy cmp x (jsSort cmp xs)"
  by (simp add: jsSort_def)

lemma insertBy_stays_first:
  assumes "\<forall>y\<in>set ys. \<not> (case cmp x y of Some v \<Rightarrow> 0 < v | None \<Rightarrow> False)"
  shows "insertBy cmp x ys = x # ys"
  using assms by (cases ys) auto

lemma jsSort_head:
  assumes "\<forall>y\<in>set xs. \<not> (case cmp x y of Some v \<Rightarrow> 0 < v | None \<Rightarrow> False)"
  shows "jsSort cmp (x # xs) = x # jsSort cmp xs"
  unfolding jsSort_Cons using assms by (intro insertBy_stays_first) (simp add: set_jsSort)

lemma sorted_insertBy:
  assumes cmp: "\<forall>a\<in>insert x (set ys). \<forall>b\<in>insert x (set ys). cmp a b = Some (key b - key a)"
    and srt: "sorted_wrt (\<lambda>a b. key b \<le> key a) ys"
  shows "sorted_wrt (\<lambda>a b. key b \<le> (key a :: int)) (insertBy cmp x ys)"
  using assms
proof (induction ys)
  case Nil
  then show ?case by simp
next
  case (Cons y ys)
  have c: "cmp x y = Some (key y - key x)" using Cons.prems(1) by simp
  show ?case
  proof (cases "0 < key y - key x")
    case True
    have "sorted_wrt (\<lambda>a b. key b \<le> key a) (insertBy cmp x ys)"
      using Cons.prems by (intro Cons.IH) auto
    moreover have "\<forall>z\<in>set (insertBy cmp x ys). key z \<le> key y"
      using Cons.prems(2) True by (auto simp: set_insertBy)
    ultimately show ?thesis using True c by simp
  next
    case False
    then have "\<forall>z\<in>set (y # ys). key z \<le> key x"
      using Cons.prems(2) by auto
    then show ?thesis using False c Cons.prems(2) by simp
  qed
qed

lemma sorted_jsSort:
  assumes "\<forall>a\<in>set xs. \<forall>b\<in>set xs. cmp a b = Some (key b - key a)"
  shows "sorted_wrt (\<lambda>a b. key b \<le> (key a :: int)) (jsSort cmp xs)"
  using assms
proof (induction xs)
  case Nil
  then show ?case by (simp add: jsSort_def)
next
  case (Cons x xs)
  have "sorted_wrt (\<lambda>a b. key b \<le> key a) (jsSort cmp xs)"
    using Cons.prems by (intro Cons.IH) auto
  then show ?case
    unfolding jsSort_Cons using Cons.prems
    by (intro sorted_insertBy) (auto simp: set_jsSort)
qed

lemma getChangeHistory_found:
  assumes "getItemById r ident = Some item"
  shows "getChangeHistory legacy r ident =
           jsSort (newestFirst legacy)
             (currentVersion item # (case previousVersions item of None \<Rightarrow> [] | Some vs \<Rightarrow> vs))"
  using assms by (simp add: getChangeHistory_def Let_def)

lemma newestFirst_valid:
  assumes "dateOf legacy (lastUpdated a) \<noteq> None" "dateOf legacy (lastUpdated b) \<noteq> None"
  shows "newestFirst legacy a b =
           Some (the (dateOf legacy (lastUpdated b)) - the (dateOf legacy (lastUpdated a)))"
  using assms by (auto simp: newestFirst_def)

text \<open>
  C6 (amended).  For an item the registry finds under the id, the change history holds
  exactly the item's previous versions and one record made from the item itself, which
  carries the item's \<open>lastUpdated\<close> and, unless the item has a \<open>changeNote\<close> of its
  own, the note \<open>Current version\<close>.  When every \<open>lastUpdated\<close> is a valid date the
  records are in descending order of date.  With two previous versions there are three
  records.  The record of the item is the first one when no previous version is dated
  after the item.
\<close>

theorem getChangeHistory_newest_first:
  "getItemById r ident = Some item \<and>
   pv = (case previousVersions item of None \<Rightarrow> [] | Some vs \<Rightarrow> vs) \<longrightarrow>
     mset (getChangeHistory legacy r ident) = mset (currentVersion item # pv) \<and>
     lastUpdated (currentVersion item) = lastUpdated item \<and>
     (changeNote item = Absent \<longrightarrow> changeNote (currentVersion item) = Text ''Current version'') \<and>
     ((\<forall>v\<in>set (currentVersion item # pv). dateOf legacy (lastUpdated v) \<noteq> None) \<longrightarrow>
        sorted_wrt (\<lambda>a b. the (dateOf legacy (lastUpdated b)) \<le> the (dateOf legacy (lastUpdated a)))
          (getChangeHistory legacy r ident)) \<and>
     (length pv = 2 \<longrightarrow> length (getChangeHistory legacy r ident) = 3) \<and>
     ((\<forall>v\<in>set pv. \<exists>tv ti. dateOf legacy (lastUpdated v) = Some tv \<and>
                            dateOf legacy (lastUpdated item) = Some ti \<and> tv \<le> ti) \<longrightarrow>
        hd (getChangeHistory legacy r ident) = currentVersion item)"
proof (intro impI, elim conjE)
  assume found: "getItemById r ident = Some item"
    and pv: "pv = (case previousVersions item of None \<Rightarrow> [] | Some vs \<Rightarrow> vs)"
  let ?cur = "currentVersion item"
  have h: "getChangeHistory legacy r ident = jsSort (newestFirst legacy) (?cur # pv)"
    using getChangeHistory_found [OF found] pv by simp
  have p1: "mset (getChangeHistory legacy r ident) = mset (?cur # pv)"
    unfolding h by (rule mset_jsSort)
  have p2: "lastUpdated ?cur = lastUpdated item"
    by (simp add: currentVersion_def)
  have p3: "changeNote item = Absent \<longrightarrow> changeNote ?cur = Text ''Current version''"
    by (simp add: currentVersion_def)
  have p4: "(\<forall>v\<in>set (?cur # pv). dateOf legacy (lastUpdated v) \<noteq> None) \<longrightarrow>
        sorted_wrt (\<lambda>a b. the (dateOf legacy (lastUpdated b)) \<le> the (dateOf legacy (lastUpdated a)))
          (getChangeHistory legacy r ident)"
  proof
    assume v: "\<forall>v\<in>set (?cur # pv). dateOf legacy (lastUpdated v) \<noteq> None"
    have "\<forall>a\<in>set (?cur # pv). \<forall>b\<in>set (?cur # pv).
            newestFirst legacy a b =
              Some (the (dateOf legacy (lastUpdated b)) - the (dateOf legacy (lastUpdated a)))"
      using v newestFirst_valid by blast
    then show "sorted_wrt (\<lambda>a b. the (dateOf legacy (lastUpdated b)) \<le> the (dateOf legacy (lastUpdated a)))
          (getChangeHistory legacy r ident)"
      unfolding h by (rule sorted_jsSort)
  qed
  have p5: "length pv = 2 \<longrightarrow> length (getChangeHistory legacy r ident) = 3"
    unfolding h by (simp add: length_jsSort)
  have p6: "(\<forall>v\<in>set pv. \<exists>tv ti. dateOf legacy (lastUpdated v) = Some tv \<and>
                            dateOf legacy (lastUpdated item) = Some ti \<and> tv \<le> ti) \<longrightarrow>
        hd (getChangeHistory legacy r ident) = ?cur"
  proof
    assume old: "\<forall>v\<in>set pv. \<exists>tv ti. dateOf legacy (lastUpdated v) = Some tv \<and>
                            dateOf legacy (lastUpdated item) = Some ti \<and> tv \<le> ti"
    have "\<forall>y\<in>set pv. \<not> (case newestFirst legacy ?cur y of Some v \<Rightarrow> 0 < v | None \<Rightarrow> False)"
    proof
      fix y assume "y \<in> set pv"
      with old obtain tv ti where "dateOf legacy (lastUpdated y) = Some tv"
        "dateOf legacy (lastUpdated item) = Some ti" "tv \<le> ti" by blast
      then show "\<not> (case newestFirst legacy ?cur y of Some v \<Rightarrow> 0 < v | None \<Rightarrow> False)"
        by (simp add: newestFirst_def p2)
    qed
    from jsSort_head [of pv "newestFirst legacy" ?cur, OF this] show "hd (getChangeHistory legacy r ident) = ?cur"
      unfolding h by simp
  qed
  from p1 p2 p3 p4 p5 p6
  show "mset (getChangeHistory legacy r ident) = mset (?cur # pv) \<and>
     lastUpdated ?cur = lastUpdated item \<and>
     (changeNote item = Absent \<longrightarrow> changeNote ?cur = Text ''Current version'') \<and>
     ((\<forall>v\<in>set (?cur # pv). dateOf legacy (lastUpdated v) \<noteq> None) \<longrightarrow>
        sorted_wrt (\<lambda>a b. the (dateOf legacy (lastUpdated b)) \<le> the (dateOf legacy (lastUpdated a)))
          (getChangeHistory legacy r ident)) \<and>
     (length pv = 2 \<longrightarrow> length (getChangeHistory legacy r ident) = 3) \<and>
     ((\<forall>v\<in>set pv. \<exists>tv ti. dateOf legacy (lastUpdated v) = Some tv \<and>
                            dateOf legacy (lastUpdated item) = Some ti \<and> tv \<le> ti) \<longrightarrow>
        hd (getChangeHistory legacy r ident) = ?cur)"
    by (intro conjI)
qed


text \<open>
  An item with two previous versions, one of them dated after the item: the history has
  three records and the first is that previous version, with its own note.
\<close>

theorem getChangeHistory_first_counterexample:
  "getItemById (exHeld exDisordered) ''cdj-3000'' = Some exDisordered \<and>
   map_option length (previousVersions exDisordered) = Some 2 \<and>
   map changeNote (getChangeHistory (\<lambda>s. None) (exHeld exDisordered) ''cdj-3000'')
     = [Text ''Later'', Text ''Current version'', Text ''Initial setup'']"
  by code_simp

theorem getChangeHistory_newest_first_witness:
  "getItemById (exHeld exOrdered) ''cdj-3000'' = Some exOrdered \<and>
   previousVersions exOrdered
     = Some [exVersion ''2023-10-15'' ''Initial setup'', exVersion ''2024-01-20'' ''Two more''] \<and>
   changeNote exOrdered = Absent \<and>
   list_all (\<lambda>v. dateOf (\<lambda>s. None) (lastUpdated v) \<noteq> None)
     (currentVersion exOrdered #
        [exVersion ''2023-10-15'' ''Initial setup'', exVersion ''2024-01-20'' ''Two more'']) \<and>
   list_all (\<lambda>v. case (dateOf (\<lambda>s. None) (lastUpdated v),
                         dateOf (\<lambda>s. None) (lastUpdated exOrdered)) of
                     (Some tv, Some ti) \<Rightarrow> tv \<le> ti | _ \<Rightarrow> False)
     [exVersion ''2023-10-15'' ''Initial setup'', exVersion ''2024-01-20'' ''Two more''] \<and>
   length (getChangeHistory (\<lambda>s. None) (exHeld exOrdered) ''cdj-3000'') = 3 \<and>
   changeNote (hd (getChangeHistory (\<lambda>s. None) (exHeld exOrdered) ''cdj-3000''))
     = Text ''Current version'' \<and>
   sorted_wrt (\<lambda>a b. the (dateOf (\<lambda>s. None) (lastUpdated b))
                      \<le> the (dateOf (\<lambda>s. None) (lastUpdated a)))
     (getChangeHistory (\<lambda>s. None) (exHeld exOrdered) ''cdj-3000'')"
proof -
  let ?L = "\<lambda>s::string. None :: int option"
  let ?pv = "[exVersion ''2023-10-15'' ''Initial setup'', exVersion ''2024-01-20'' ''Two more'']"
  have h1: "getItemById (exHeld exOrdered) ''cdj-3000'' = Some exOrdered" by code_simp
  have h2: "previousVersions exOrdered = Some ?pv" by (simp add: exOrdered_def exItem_def)
  have h3: "changeNote exOrdered = Absent" by (simp add: exOrdered_def exItem_def)
  have h4: "list_all (\<lambda>v. dateOf ?L (lastUpdated v) \<noteq> None) (currentVersion exOrdered # ?pv)"
    by code_simp
  have h5: "list_all (\<lambda>v. case (dateOf ?L (lastUpdated v), dateOf ?L (lastUpdated exOrdered)) of
                     (Some tv, Some ti) \<Rightarrow> tv \<le> ti | _ \<Rightarrow> False) ?pv"
    by code_simp
  have h4': "\<forall>v\<in>set (currentVersion exOrdered # ?pv). dateOf ?L (lastUpdated v) \<noteq> None"
    using h4 by (simp only: list_all_iff)
  have h5': "\<forall>v\<in>set ?pv. \<exists>tv ti. dateOf ?L (lastUpdated v) = Some tv \<and>
                            dateOf ?L (lastUpdated exOrdered) = Some ti \<and> tv \<le> ti"
  proof
    fix v assume "v \<in> set ?pv"
    with h5 have "case (dateOf ?L (lastUpdated v), dateOf ?L (lastUpdated exOrdered)) of
                     (Some tv, Some ti) \<Rightarrow> tv \<le> ti | _ \<Rightarrow> False"
      by (simp only: list_all_iff)
    then show "\<exists>tv ti. dateOf ?L (lastUpdated v) = Some tv \<and>
                            dateOf ?L (lastUpdated exOrdered) = Some ti \<and> tv \<le> ti"
      by (auto split: option.splits)
  qed
  have pv: "?pv = (case previousVersions exOrdered of None \<Rightarrow> [] | Some vs \<Rightarrow> vs)"
    by (simp add: h2)
  note claim = getChangeHistory_newest_first [of "exHeld exOrdered" "''cdj-3000''" exOrdered ?pv ?L,
      THEN mp, OF conjI [OF h1 pv]]
  have cur: "changeNote (currentVersion exOrdered) = Text ''Current version''"
    using claim h3 by blast
  have hd: "hd (getChangeHistory ?L (exHeld exOrdered) ''cdj-3000'') = currentVersion exOrdered"
    using claim h5' by blast
  have c1: "length (getChangeHistory ?L (exHeld exOrdered) ''cdj-3000'') = 3"
    using claim by simp
  have c2: "changeNote (hd (getChangeHistory ?L (exHeld exOrdered) ''cdj-3000'')) = Text ''Current version''"
    by (simp only: hd cur)
  have c3: "sorted_wrt (\<lambda>a b. the (dateOf ?L (lastUpdated b)) \<le> the (dateOf ?L (lastUpdated a)))
     (getChangeHistory ?L (exHeld exOrdered) ''cdj-3000'')"
    using claim h4' by blast
  show ?thesis
    by (intro conjI) (rule h1 h2 h3 h4 h5 c1 c2 c3)+
qed

section \<open>Verified properties: document indexer\<close>

text \<open>
  C7.  A search on the knowledge base as the module creates it, before any extraction,
  raises: the object has five properties, so the guard for an unloaded knowledge base
  does not apply, and \<open>faqs\<close> is still undefined when the search reaches it.
\<close>

theorem search_before_extraction_raises:
  "searchKnowledgeBase query initialKnowledgeBase = None"
  by (simp add: searchKnowledgeBase_def keyCount_def initialKnowledgeBase_def Let_def)

lemma uniqueEntries_seen_all:
  "set (map content ys) \<subseteq> set seen \<Longrightarrow> uniqueEntries seen ys = []"
  by (induction ys) auto

lemma uniqueEntries_append:
  "set (map content ys) \<subseteq> set seen \<union> set (map content xs) \<Longrightarrow>
   uniqueEntries seen (xs @ ys) = uniqueEntries seen xs"
proof (induction xs arbitrary: seen)
  case Nil
  then show ?case by (simp add: uniqueEntries_seen_all)
next
  case (Cons x xs)
  show ?case
  proof (cases "content x \<in> set seen")
    case True
    with Cons.prems have "set (map content ys) \<subseteq> set seen \<union> set (map content xs)" by auto
    with True Cons.IH show ?thesis by simp
  next
    case False
    from Cons.prems have "set (map content ys) \<subseteq> set (content x # seen) \<union> set (map content xs)"
      by auto
    with False Cons.IH show ?thesis by simp
  qed
qed

lemma uniqueEntries_idem: "uniqueEntries seen (uniqueEntries seen xs) = uniqueEntries seen xs"
proof (induction xs arbitrary: seen)
  case Nil
  then show ?case by simp
next
  case (Cons x xs)
  show ?case
  proof (cases "content x \<in> set seen")
    case True
    with Cons.IH show ?thesis by simp
  next
    case False
    with Cons.IH [of "content x # seen"] show ?thesis by simp
  qed
qed

lemma content_uniqueEntries:
  "content ` set (uniqueEntries seen xs) = content ` set xs - set seen"
  by (induction xs arbitrary: seen) auto

lemma map_of_updateEntry: "map_of (updateEntry k v kvs) k' = (if k' = k then Some v else map_of kvs k')"
  by (induction kvs) auto

lemma updateEntry_same: "map_of kvs k = Some v \<Longrightarrow> updateEntry k v kvs = kvs"
  by (induction kvs) (auto split: if_splits)

lemma dedup_updateEntry:
  "dedupSpecifications (updateEntry c v S) = updateEntry c (uniqueEntries [] v) (dedupSpecifications S)"
  by (induction S) (auto simp: dedupSpecifications_def)

lemma map_of_dedup:
  "map_of (dedupSpecifications S) c = map_option (uniqueEntries []) (map_of S c)"
  by (induction S) (auto simp: dedupSpecifications_def)

lemma dedup_idem: "dedupSpecifications (dedupSpecifications S) = dedupSpecifications S"
  by (induction S) (auto simp: dedupSpecifications_def uniqueEntries_idem)

lemma categorizeOne_cases:
  "categorizeOne text pageNum X (c, kws) =
     (case foundPassages text pageNum kws of
        None \<Rightarrow> X
      | Some found \<Rightarrow> updateEntry c ((case map_of X c of None \<Rightarrow> [] | Some es \<Rightarrow> es) @ found) X)"
  by (simp add: categorizeOne_def Let_def split: option.splits)

lemma step_establishes: "holds text pageNum (categorizeOne text pageNum X ck) ck"
  by (cases ck) (auto simp: holds_def categorizeOne_cases map_of_updateEntry split: option.splits)

lemma step_preserves:
  assumes "holds text pageNum X ck'"
  shows "holds text pageNum (categorizeOne text pageNum X ck) ck'"
proof (cases ck)
  case (Pair c kws)
  show ?thesis
    unfolding holds_def
  proof (intro allI impI)
    fix found assume f: "foundPassages text pageNum (snd ck') = Some found"
    with assms obtain es where es: "map_of X (fst ck') = Some es"
      "set (map content found) \<subseteq> set (map content es)"
      by (auto simp: holds_def)
    show "\<exists>es. map_of (categorizeOne text pageNum X ck) (fst ck') = Some es \<and>
               set (map content found) \<subseteq> set (map content es)"
      using es unfolding Pair categorizeOne_cases
      by (auto simp: map_of_updateEntry split: option.splits)
  qed
qed

lemma fold_preserves:
  "holds text pageNum X ck' \<Longrightarrow> holds text pageNum (foldl (categorizeOne text pageNum) X cks) ck'"
  by (induction cks arbitrary: X) (simp_all add: step_preserves)

lemma fold_establishes:
  "ck \<in> set cks \<Longrightarrow> holds text pageNum (foldl (categorizeOne text pageNum) X cks) ck"
proof (induction cks arbitrary: X)
  case Nil
  then show ?case by simp
next
  case (Cons a cks)
  show ?case
  proof (cases "ck = a")
    case True
    have "holds text pageNum (categorizeOne text pageNum X a) a" by (rule step_establishes)
    then show ?thesis using True by (simp add: fold_preserves)
  next
    case False
    with Cons show ?thesis by simp
  qed
qed

lemma step_dedup:
  assumes "holds text pageNum X ck"
  shows "dedupSpecifications (categorizeOne text pageNum X ck) = dedupSpecifications X"
proof (cases ck)
  case (Pair c kws)
  show ?thesis
  proof (cases "foundPassages text pageNum kws")
    case None
    then show ?thesis by (simp add: Pair categorizeOne_cases)
  next
    case (Some found)
    with assms Pair obtain es where es: "map_of X c = Some es"
      "set (map content found) \<subseteq> set (map content es)"
      by (auto simp: holds_def)
    have "uniqueEntries [] (es @ found) = uniqueEntries [] es"
      using es(2) by (intro uniqueEntries_append) simp
    moreover have "map_of (dedupSpecifications X) c = Some (uniqueEntries [] es)"
      by (simp add: map_of_dedup es(1))
    ultimately show ?thesis
      by (simp add: Pair categorizeOne_cases Some es(1) dedup_updateEntry updateEntry_same)
  qed
qed

lemma fold_dedup:
  "\<forall>ck\<in>set cks. holds text pageNum X ck \<Longrightarrow>
   dedupSpecifications (foldl (categorizeOne text pageNum) X cks) = dedupSpecifications X"
proof (induction cks arbitrary: X)
  case Nil
  then show ?case by simp
next
  case (Cons a cks)
  have "\<forall>ck\<in>set cks. holds text pageNum (categorizeOne text pageNum X a) ck"
    using Cons.prems by (simp add: step_preserves)
  from Cons.IH [OF this] show ?case
    using Cons.prems by (simp add: step_dedup)
qed

lemma holds_dedup:
  assumes "holds text pageNum X ck"
  shows "holds text pageNum (dedupSpecifications X) ck"
proof -
  have "content ` set (uniqueEntries [] es) = content ` set es" for es
    by (simp add: content_uniqueEntries)
  with assms show ?thesis
    by (auto simp: holds_def map_of_dedup)
qed

lemma categorize_twice:
  "dedupSpecifications (categorizeSectionContent text pageNum
      (dedupSpecifications (categorizeSectionContent text pageNum S)))
   = dedupSpecifications (categorizeSectionContent text pageNum S)"
proof -
  let ?T = "categorizeSectionContent text pageNum S"
  have "\<forall>ck\<in>set CATEGORIES. holds text pageNum (dedupSpecifications ?T) ck"
    unfolding categorizeSectionContent_def
    by (intro ballI holds_dedup fold_establishes)
  then have "dedupSpecifications (categorizeSectionContent text pageNum (dedupSpecifications ?T))
             = dedupSpecifications (dedupSpecifications ?T)"
    unfolding categorizeSectionContent_def by (rule fold_dedup)
  then show ?thesis by (simp add: dedup_idem)
qed

text \<open>An inherited name never gets an entry, and whether a scan raises depends on that alone.\<close>

lemma recordEquipment_inherited:
  assumes "recordEquipment p m eq = Some eq'" "n \<in> set inheritedNames"
  shows "(map_of eq' n = None) = (map_of eq n = None)"
proof -
  obtain q nm sp where m: "m = (q, nm, sp)" by (cases m)
  show ?thesis
  proof (cases "map_of eq (trim nm)")
    case None
    with assms m have "trim nm \<notin> set inheritedNames"
      by (auto simp: recordEquipment_def Let_def split: if_splits)
    with assms None m have "n \<noteq> trim nm" by auto
    with assms None m show ?thesis
      by (auto simp: recordEquipment_def Let_def map_of_updateEntry split: if_splits)
  next
    case (Some e)
    with assms m show ?thesis
      by (auto simp: recordEquipment_def Let_def map_of_updateEntry split: if_splits)
  qed
qed

lemma recordEquipment_raises:
  "(recordEquipment p m eq = None) =
     (map_of eq (trim (fst (snd m))) = None \<and> trim (fst (snd m)) \<in> set inheritedNames)"
  by (cases m) (auto simp: recordEquipment_def Let_def split: option.splits)

lemma recordAll_flag_cong:
  assumes "\<forall>n\<in>set inheritedNames. (map_of A n = None) = (map_of B n = None)"
  shows "snd (recordAll p ms A) = snd (recordAll p ms B)"
  using assms
proof (induction ms arbitrary: A B)
  case Nil
  then show ?case by simp
next
  case (Cons m ms)
  have same: "(recordEquipment p m A = None) = (recordEquipment p m B = None)"
    unfolding recordEquipment_raises using Cons.prems by blast
  show ?case
  proof (cases "recordEquipment p m A")
    case None
    with same show ?thesis by simp
  next
    case (Some A')
    with same obtain B' where B': "recordEquipment p m B = Some B'" by auto
    have "\<forall>n\<in>set inheritedNames. (map_of A' n = None) = (map_of B' n = None)"
      using Cons.prems recordEquipment_inherited [OF Some] recordEquipment_inherited [OF B']
      by simp
    from Cons.IH [OF this] show ?thesis by (simp add: Some B')
  qed
qed

lemma recordAll_inherited:
  "n \<in> set inheritedNames \<Longrightarrow> (map_of (fst (recordAll p ms A)) n = None) = (map_of A n = None)"
proof (induction ms arbitrary: A)
  case Nil
  then show ?case by simp
next
  case (Cons m ms)
  show ?case
  proof (cases "recordEquipment p m A")
    case None
    then show ?thesis by simp
  next
    case (Some A')
    with Cons.IH [OF Cons.prems, of A'] recordEquipment_inherited [OF Some Cons.prems]
    show ?thesis by simp
  qed
qed

lemma extractEquipmentSpecs_again:
  "snd (extractEquipmentSpecs text p (fst (extractEquipmentSpecs text p A)))
   = snd (extractEquipmentSpecs text p A)"
  unfolding extractEquipmentSpecs_def
  by (intro recordAll_flag_cong ballI recordAll_inherited)

lemma extract_single_equipment:
  "equipment (fst (extractPdfContent f [page] kb)) = fst (extractEquipmentSpecs page 1 (equipment kb))"
  by (cases "extractEquipmentSpecs page 1 (equipment kb)")
     (auto simp: extractPdfContent_def processPageContent_def organizeKnowledgeBase_def
        generateFAQs_def split: prod.splits bool.splits)

lemma extract_single_specifications:
  "specifications (fst (extractPdfContent f [page] kb)) =
     (if snd (extractEquipmentSpecs page 1 (equipment kb))
      then dedupSpecifications (categorizeSectionContent page 1 (specifications kb))
      else specifications kb)"
  by (cases "extractEquipmentSpecs page 1 (equipment kb)")
     (auto simp: extractPdfContent_def processPageContent_def organizeKnowledgeBase_def
        generateFAQs_def split: prod.splits bool.splits)

lemma distinct_uniqueEntries:
  "distinct (map content (uniqueEntries seen xs)) \<and>
   content ` set (uniqueEntries seen xs) \<inter> set seen = {}"
  by (induction xs arbitrary: seen) (auto simp: content_uniqueEntries)

text \<open>
  C8.  Extracting the same one-page document a second time, from the knowledge base the
  first extraction left, gives the same categorized passages, whatever the knowledge base
  held before.  Finalization leaves in each category only passages with different
  texts: of passages with the same text the first is kept.
\<close>

theorem reextraction_same_passages:
  "specifications (fst (extractPdfContent f [page] (fst (extractPdfContent f [page] kb))))
     = specifications (fst (extractPdfContent f [page] kb)) \<and>
   list_all (\<lambda>ce. distinct (map content (snd ce)))
     (specifications (organizeKnowledgeBase f kb)) \<and>
   uniqueEntries [] (entry # entries) =
     entry # uniqueEntries [] (filter (\<lambda>e. content e \<noteq> content entry) entries)"
proof (intro conjI)
  let ?kb1 = "fst (extractPdfContent f [page] kb)"
  have flag: "snd (extractEquipmentSpecs page 1 (equipment ?kb1))
                = snd (extractEquipmentSpecs page 1 (equipment kb))"
    unfolding extract_single_equipment by (rule extractEquipmentSpecs_again)
  have s2: "specifications (fst (extractPdfContent f [page] ?kb1)) =
     (if snd (extractEquipmentSpecs page 1 (equipment kb))
      then dedupSpecifications (categorizeSectionContent page 1 (specifications ?kb1))
      else specifications ?kb1)"
    unfolding flag [symmetric] by (rule extract_single_specifications)
  note s1 = extract_single_specifications [of f page kb]
  show "specifications (fst (extractPdfContent f [page] ?kb1)) = specifications ?kb1"
  proof (cases "snd (extractEquipmentSpecs page 1 (equipment kb))")
    case True
    have k: "specifications ?kb1 = dedupSpecifications (categorizeSectionContent page 1 (specifications kb))"
      using True by (simp only: s1 if_True)
    have "specifications (fst (extractPdfContent f [page] ?kb1)) =
            dedupSpecifications (categorizeSectionContent page 1 (specifications ?kb1))"
      using True by (simp only: s2 if_True)
    also have "\<dots> = specifications ?kb1"
      unfolding k by (rule categorize_twice)
    finally show ?thesis .
  next
    case False
    then show ?thesis by (simp only: s2 if_False)
  qed
next
  show "list_all (\<lambda>ce. distinct (map content (snd ce))) (specifications (organizeKnowledgeBase f kb))"
    by (simp add: organizeKnowledgeBase_def generateFAQs_def dedupSpecifications_def
          list_all_iff distinct_uniqueEntries split_beta)
next
  have perm: "set seen = set seen' \<Longrightarrow> uniqueEntries seen es = uniqueEntries seen' es"
    for seen seen' es
  proof (induction es arbitrary: seen seen')
    case Nil
    then show ?case by simp
  next
    case (Cons a es)
    have "uniqueEntries (content a # seen) es = uniqueEntries (content a # seen') es"
      using Cons.prems by (intro Cons.IH) simp
    moreover have "uniqueEntries seen es = uniqueEntries seen' es"
      using Cons.prems by (rule Cons.IH)
    ultimately show ?case using Cons.prems by simp
  qed
  have gen: "uniqueEntries (c # seen) es = uniqueEntries seen (filter (\<lambda>e. content e \<noteq> c) es)"
    for c seen es
  proof (induction es arbitrary: seen)
    case Nil
    then show ?case by simp
  next
    case (Cons a es)
    have "uniqueEntries (content a # c # seen) es = uniqueEntries (c # content a # seen) es"
      by (rule perm) auto
    with Cons.IH show ?case by auto
  qed
  show "uniqueEntries [] (entry # entries) =
     entry # uniqueEntries [] (filter (\<lambda>e. content e \<noteq> content entry) entries)"
    by (simp add: gen)
qed

text \<open>Equipment facts and the sightings of a name.\<close>

lemma applySightings_append:
  "applySightings eo (xs @ ys) = applySightings (applySightings eo xs) ys"
  by (induction xs arbitrary: eo) auto

lemma applySightings_Some:
  "applySightings (Some e) ss = Some (e\<lparr>pageReferences := foldl addPage (pageReferences e) (map fst ss)\<rparr>)"
  by (induction ss arbitrary: e) auto

lemma applySightings_None: "applySightings None ss = specEquipmentFact ss"
  by (cases ss) (auto simp: specEquipmentFact_def applySightings_Some)

lemma recordEquipment_entry:
  assumes "recordEquipment p (q, nm, sp) eq = Some eq'"
  shows "map_of eq' k =
     (if k = trim nm then applySightings (map_of eq k) [(p, q, nm, sp)] else map_of eq k)"
  using assms
  by (auto simp: recordEquipment_def Let_def map_of_updateEntry addPage_def
        split: option.splits if_splits)

lemma recordAll_entry:
  assumes "recordAll p ms eq = (eq', True)"
  shows "map_of eq' k =
     applySightings (map_of eq k) (filter (\<lambda>s. sightingName s = k) (map (\<lambda>m. (p, m)) ms))"
  using assms
proof (induction ms arbitrary: eq)
  case Nil
  then show ?case by simp
next
  case (Cons m ms)
  obtain q nm sp where m: "m = (q, nm, sp)" by (cases m)
  from Cons.prems obtain eq1 where s: "recordEquipment p m eq = Some eq1"
    and r: "recordAll p ms eq1 = (eq', True)"
    by (auto split: option.splits)
  from Cons.IH [OF r] recordEquipment_entry [OF s [unfolded m], of k]
  show ?case by (auto simp: m sightingName_def)
qed

lemma processPageContent_equipment:
  "equipment (fst (processPageContent pageText p kb)) = fst (extractEquipmentSpecs pageText p (equipment kb))"
  "snd (processPageContent pageText p kb) = snd (extractEquipmentSpecs pageText p (equipment kb))"
  by (cases "extractEquipmentSpecs pageText p (equipment kb)";
      auto simp: processPageContent_def split: bool.splits)+

lemma processPages_entry:
  assumes "processPages p pages kb = (kb', True)"
  shows "map_of (equipment kb') k =
     applySightings (map_of (equipment kb) k) (filter (\<lambda>s. sightingName s = k) (sightings p pages))"
  using assms
proof (induction pages arbitrary: p kb)
  case Nil
  then show ?case by simp
next
  case (Cons pageText pages)
  let ?kbr = "kb\<lparr>raw := updateEntry (''page_'' @ showNat p) pageText (raw kb)\<rparr>"
  obtain kb1 b where pp: "processPageContent pageText p ?kbr = (kb1, b)"
    by (cases "processPageContent pageText p ?kbr")
  from Cons.prems pp have b: "b = True" and rest: "processPages (Suc p) pages kb1 = (kb', True)"
    by (auto split: bool.splits)
  have "extractEquipmentSpecs pageText p (equipment kb) = (equipment kb1, True)"
    using processPageContent_equipment [of pageText p ?kbr] pp b
    by (cases "extractEquipmentSpecs pageText p (equipment kb)") simp
  then have one: "map_of (equipment kb1) k =
      applySightings (map_of (equipment kb) k)
        (filter (\<lambda>s. sightingName s = k) (map (\<lambda>m. (p, m)) (equipmentMatches pageText)))"
    unfolding extractEquipmentSpecs_def by (rule recordAll_entry)
  from Cons.IH [OF rest] one show ?case
    by (simp add: applySightings_append)
qed

lemma extractPdfContent_entry:
  assumes "extractPdfContent f pages kb = (kb', True)"
  shows "map_of (equipment kb') k =
     applySightings (map_of (equipment kb) k) (filter (\<lambda>s. sightingName s = k) (sightings 1 pages))"
proof -
  obtain kb1 b where pp: "processPages 1 pages kb = (kb1, b)" by (cases "processPages 1 pages kb")
  with assms have b: "b = True" and kb': "kb' = organizeKnowledgeBase f kb1"
    by (auto simp: extractPdfContent_def split: bool.splits)
  have "equipment kb' = equipment kb1"
    by (simp add: kb' organizeKnowledgeBase_def generateFAQs_def)
  with processPages_entry [of 1 pages kb kb1 k] pp b show ?thesis by simp
qed

lemma set_foldl_addPage: "set (foldl addPage refs ps) = set refs \<union> set ps"
  by (induction ps arbitrary: refs) (auto simp: addPage_def)

lemma specEquipmentFact_page:
  assumes "(p, m) \<in> set ss"
  shows "\<exists>e. specEquipmentFact ss = Some e \<and> p \<in> set (pageReferences e)"
proof (cases ss)
  case Nil
  with assms show ?thesis by simp
next
  case (Cons s rest)
  obtain p0 q0 nm0 sp0 where s: "s = (p0, q0, nm0, sp0)" by (cases s)
  from assms Cons have "p \<in> set (p0 # map fst rest)" unfolding s by force
  then show ?thesis
    by (simp add: Cons s specEquipmentFact_def set_foldl_addPage)
qed

text \<open>The extraction returns exactly when no sighting has an inherited name.\<close>

lemma recordAll_returns:
  assumes "\<forall>n\<in>set inheritedNames. map_of A n = None"
  shows "snd (recordAll p ms A) =
           list_all (\<lambda>s. sightingName s \<notin> set inheritedNames) (map (\<lambda>m. (p, m)) ms)"
  using assms
proof (induction ms arbitrary: A)
  case Nil
  then show ?case by simp
next
  case (Cons m ms)
  show ?case
  proof (cases "recordEquipment p m A")
    case None
    then have "sightingName (p, m) \<in> set inheritedNames"
      by (simp add: recordEquipment_raises sightingName_def)
    with None show ?thesis by simp
  next
    case (Some A')
    have inh: "\<forall>n\<in>set inheritedNames. map_of A' n = None"
      using recordEquipment_inherited [OF Some] Cons.prems by simp
    have "sightingName (p, m) \<notin> set inheritedNames"
      using Some Cons.prems recordEquipment_raises [of p m A]
      by (auto simp: sightingName_def)
    with Cons.IH [OF inh] Some show ?thesis by simp
  qed
qed

lemma processPages_returns:
  assumes "\<forall>n\<in>set inheritedNames. map_of (equipment kb) n = None"
  shows "snd (processPages p pages kb) =
           list_all (\<lambda>s. sightingName s \<notin> set inheritedNames) (sightings p pages)"
  using assms
proof (induction pages arbitrary: p kb)
  case Nil
  then show ?case by simp
next
  case (Cons pageText pages)
  let ?kbr = "kb\<lparr>raw := updateEntry (''page_'' @ showNat p) pageText (raw kb)\<rparr>"
  let ?page = "list_all (\<lambda>s. sightingName s \<notin> set inheritedNames)
                 (map (\<lambda>m. (p, m)) (equipmentMatches pageText))"
  obtain kb1 b where pp: "processPageContent pageText p ?kbr = (kb1, b)"
    by (cases "processPageContent pageText p ?kbr")
  have b: "b = ?page"
    using processPageContent_equipment(2) [of pageText p ?kbr] pp
      recordAll_returns [OF Cons.prems, of p "equipmentMatches pageText"]
    by (simp add: extractEquipmentSpecs_def)
  have eq1: "equipment kb1 = fst (recordAll p (equipmentMatches pageText) (equipment kb))"
    using processPageContent_equipment(1) [of pageText p ?kbr] pp
    by (simp add: extractEquipmentSpecs_def)
  have inh: "\<forall>n\<in>set inheritedNames. map_of (equipment kb1) n = None"
    unfolding eq1 using Cons.prems by (simp add: recordAll_inherited)
  show ?case
  proof (cases b)
    case True
    with Cons.IH [OF inh, of "Suc p"] pp b show ?thesis by simp
  next
    case False
    with pp b show ?thesis by simp
  qed
qed

lemma extractPdfContent_returns:
  "snd (extractPdfContent f pages initialKnowledgeBase) =
     list_all (\<lambda>s. sightingName s \<notin> set inheritedNames) (sightings 1 pages)"
proof -
  have "snd (extractPdfContent f pages initialKnowledgeBase)
          = snd (processPages 1 pages initialKnowledgeBase)"
    by (cases "processPages 1 pages initialKnowledgeBase")
       (auto simp: extractPdfContent_def split: bool.splits)
  also have "\<dots> = list_all (\<lambda>s. sightingName s \<notin> set inheritedNames) (sightings 1 pages)"
    by (rule processPages_returns) (simp add: initialKnowledgeBase_def)
  finally show ?thesis .
qed

text \<open>The optional group of the equipment pattern never takes part in a match.\<close>

lemma specGroupAt_after_run:
  "r = [] \<or> \<not> isNameChar (hd r) \<Longrightarrow> specGroupAt r = None"
  by (cases r) (auto simp: specGroupAt_def isNameChar_def Let_def)

lemma equipmentAt_no_specification:
  "equipmentAt s = Some ((q, nm, sp), n) \<Longrightarrow> sp = None"
proof -
  have a: "specGroupAt (dropWhile isNameChar r) = None" for r
    by (rule specGroupAt_after_run) (metis hd_dropWhile)
  have b: "takeWhile isNameChar r = [] \<Longrightarrow> specGroupAt r = None" for r
    by (rule specGroupAt_after_run) (cases r, auto split: if_splits)
  show "equipmentAt s = Some ((q, nm, sp), n) \<Longrightarrow> sp = None"
    by (auto simp: equipmentAt_def Let_def a b split: list.splits if_splits)
qed

lemma find_filter_hd: "find P xs = Some x \<Longrightarrow> \<exists>ys. filter P xs = x # ys"
  by (induction xs) (auto split: if_splits)

text \<open>
  C1 (amended).  When the extraction of a document, from the knowledge base as the
  module creates it, returns, the equipment map holds for every name exactly the fact the
  sightings of that name give: no entry without a sighting; otherwise the quantity and
  the specification of the first sighting and the pages of the sightings, each page once,
  in the order of the sightings.  So for every match of the pattern in a page, the map
  has an entry under the captured name whose page references include the page, and its
  quantity is the number of the match when the match is the first sighting of the name.
\<close>

theorem equipment_facts_from_sightings:
  "extractPdfContent f pages initialKnowledgeBase = (kb, True) \<longrightarrow>
     map_of (equipment kb) name =
       specEquipmentFact (filter (\<lambda>s. sightingName s = name) (sightings 1 pages)) \<and>
     ((p, q, nm, sp) \<in> set (sightings 1 pages) \<longrightarrow>
        (\<exists>e. map_of (equipment kb) (trim nm) = Some e \<and> p \<in> set (pageReferences e) \<and>
             (find (\<lambda>s. sightingName s = trim nm) (sightings 1 pages) = Some (p, q, nm, sp) \<longrightarrow>
                quantity e = digitsVal q \<and>
                specificationText e = (case sp of None \<Rightarrow> [] | Some s \<Rightarrow> trim s))))"
proof (intro impI conjI)
  assume ok: "extractPdfContent f pages initialKnowledgeBase = (kb, True)"
  have all: "map_of (equipment kb) k =
       specEquipmentFact (filter (\<lambda>s. sightingName s = k) (sightings 1 pages))" for k
    using extractPdfContent_entry [OF ok, of k]
    by (simp add: initialKnowledgeBase_def applySightings_None)
  show "map_of (equipment kb) name =
       specEquipmentFact (filter (\<lambda>s. sightingName s = name) (sightings 1 pages))"
    by (rule all)
  assume s: "(p, q, nm, sp) \<in> set (sightings 1 pages)"
  let ?ss = "filter (\<lambda>s. sightingName s = trim nm) (sightings 1 pages)"
  from s have "(p, q, nm, sp) \<in> set ?ss" by (simp add: sightingName_def)
  from specEquipmentFact_page [OF this] obtain e where
    e: "specEquipmentFact ?ss = Some e" "p \<in> set (pageReferences e)" by blast
  have first: "quantity e = digitsVal q \<and>
                specificationText e = (case sp of None \<Rightarrow> [] | Some s \<Rightarrow> trim s)"
    if "find (\<lambda>s. sightingName s = trim nm) (sightings 1 pages) = Some (p, q, nm, sp)"
  proof -
    from find_filter_hd [OF that] obtain ys where "?ss = (p, q, nm, sp) # ys" by blast
    with e(1) show ?thesis by (auto simp: specEquipmentFact_def)
  qed
  show "\<exists>e. map_of (equipment kb) (trim nm) = Some e \<and> p \<in> set (pageReferences e) \<and>
             (find (\<lambda>s. sightingName s = trim nm) (sightings 1 pages) = Some (p, q, nm, sp) \<longrightarrow>
                quantity e = digitsVal q \<and>
                specificationText e = (case sp of None \<Rightarrow> [] | Some s \<Rightarrow> trim s))"
    using all [of "trim nm"] e first by auto
qed

text \<open>
  Two pages that list the same name with different numbers: the second page matches the
  pattern with the number 3, and the entry keeps the quantity 2 of the first page.
\<close>

theorem equipment_quantity_counterexample:
  "snd (extractPdfContent (\<lambda>s. s) [''2 x CDJ'', ''3 x CDJ''] initialKnowledgeBase) = True \<and>
   equipmentMatches ''3 x CDJ'' = [(''3'', ''CDJ'', None)] \<and>
   map_of (equipment (fst (extractPdfContent (\<lambda>s. s) [''2 x CDJ'', ''3 x CDJ''] initialKnowledgeBase)))
     ''CDJ'' = Some \<lparr> quantity = 2, specificationText = [], pageReferences = [1, 2] \<rparr>"
  by code_simp


theorem equipment_facts_from_sightings_witness:
  "extractPdfContent (\<lambda>s. s) [''6 x CDJ'', ''4 x CDJ, 2 x DJM-900''] initialKnowledgeBase
     = (fst (extractPdfContent (\<lambda>s. s) [''6 x CDJ'', ''4 x CDJ, 2 x DJM-900''] initialKnowledgeBase),
        True) \<and>
   (2, ''4'', ''CDJ'', None) \<in> set (sightings 1 [''6 x CDJ'', ''4 x CDJ, 2 x DJM-900'']) \<and>
   find (\<lambda>s. sightingName s = trim ''CDJ'') (sightings 1 [''6 x CDJ'', ''4 x CDJ, 2 x DJM-900''])
     = Some (1, ''6'', ''CDJ'', None) \<and>
   map_of (equipment (fst (extractPdfContent (\<lambda>s. s) [''6 x CDJ'', ''4 x CDJ, 2 x DJM-900'']
                             initialKnowledgeBase))) ''CDJ''
     = Some \<lparr> quantity = 6, specificationText = [], pageReferences = [1, 2] \<rparr> \<and>
   (\<exists>e. map_of (equipment (fst (extractPdfContent (\<lambda>s. s) [''6 x CDJ'', ''4 x CDJ, 2 x DJM-900'']
                                  initialKnowledgeBase))) (trim ''CDJ'') = Some e \<and>
        2 \<in> set (pageReferences e))"
proof -
  let ?P = "[''6 x CDJ'', ''4 x CDJ, 2 x DJM-900'']"
  let ?X = "extractPdfContent (\<lambda>s. s) ?P initialKnowledgeBase"
  have fl: "snd ?X = True"
    unfolding extractPdfContent_returns by code_simp
  have h: "?X = (fst ?X, True)"
    using fl by (simp add: prod_eq_iff)
  note claim = equipment_facts_from_sightings [of "\<lambda>s. s" ?P "fst ?X", THEN mp, OF h]
  have w2: "(2, ''4'', ''CDJ'', None) \<in> set (sightings 1 ?P)" by code_simp
  have w3: "find (\<lambda>s. sightingName s = trim ''CDJ'') (sightings 1 ?P) = Some (1, ''6'', ''CDJ'', None)"
    by code_simp
  have ev: "specEquipmentFact (filter (\<lambda>s. sightingName s = ''CDJ'') (sightings 1 ?P))
              = Some \<lparr> quantity = 6, specificationText = [], pageReferences = [1, 2] \<rparr>"
    by code_simp
  have w4: "map_of (equipment (fst ?X)) ''CDJ''
              = Some \<lparr> quantity = 6, specificationText = [], pageReferences = [1, 2] \<rparr>"
    using claim [of "''CDJ''"] ev by simp
  have w5: "\<exists>e. map_of (equipment (fst ?X)) (trim ''CDJ'') = Some e \<and> 2 \<in> set (pageReferences e)"
    using claim [of _ 2 "''4''" "''CDJ''" None] w2 by blast
  show ?thesis
    by (intro conjI) (rule h w2 w3 w4 w5)+
qed

end
